theory Spec2Isabelle
  imports Main "HOL-Library.Multiset"
begin

section \<open>The quantized pool loader (catboost/libs/quantized_pool/loader.cpp)\<close>

text \<open>
  A shallow embedding of \<^verbatim>\<open>loader.cpp\<close>: the sequential chunk evictor, the gathering
  and sorting of chunk references, the per-type dispatch \<^verbatim>\<open>AddChunk\<close>, the
  constructor of \<^verbatim>\<open>TCBQuantizedDataLoader\<close> and its method \<^verbatim>\<open>Do\<close>.

  Conventions.
  \<^item> An address (\<^verbatim>\<open>const ui8*\<close>) is a natural number, \<^verbatim>\<open>nullptr\<close> is 0. A \<^verbatim>\<open>size_t\<close>
    is a natural number; a cast to \<^verbatim>\<open>ui32\<close> is \<open>mod 2 ^ 32\<close>, written out. The byte
    range of a chunk lies inside the address space, and there the sums and differences
    of the evictor do not wrap around (lemma \<open>Push_within_address_space\<close>).
  \<^item> Every \<^verbatim>\<open>CB_ENSURE\<close> and \<^verbatim>\<open>ythrow\<close> of the file is a constructor of \<open>error\<close>.
    What C++ leaves undefined (reading through a null pointer, indexing a vector or a
    deque out of range) is the constructor \<open>UndefinedBehaviour\<close>: the model stops there.
  \<^item> Calls on the visitor, calls on the evictor and the advisory given to the operating
    system are recorded, in order, in a list of events.
  \<^item> The names of the source are kept. The private members of the evictor end with an
    underscore in the source (\<^verbatim>\<open>Data_\<close>, \<^verbatim>\<open>Size_\<close>, \<^verbatim>\<open>Evicted_\<close>,
    \<^verbatim>\<open>MinSizeInBytesToEvict_\<close>); such names are not accepted here, so the underscore
    is dropped.
\<close>

subsection \<open>Column types and errors\<close>

text \<open>The enumeration \<^verbatim>\<open>EColumn\<close>, with the fourteen values the switch of
  \<^verbatim>\<open>AddChunk\<close> lists.\<close>

datatype EColumn =
    Num | Categ | Label | Auxiliary | Baseline | Weight | SampleId
  | GroupId | GroupWeight | SubgroupId | Timestamp | Sparse | Prediction | Text

datatype undefined_behaviour =
    NullPointerDereference
  | IndexOutOfRange

datatype error =
    PoolIsEmpty
      \<comment> \<open>line 48: "Pool is empty"\<close>
  | TooManyObjects
      \<comment> \<open>line 49: "CatBoost does not support datasets with more than ... objects"\<close>
  | PairsFilePathDoesNotExist
      \<comment> \<open>line 56\<close>
  | GroupWeightsFilePathDoesNotExist
      \<comment> \<open>line 58\<close>
  | BaselineFilePathDoesNotExist
      \<comment> \<open>line 60\<close>
  | PoolShouldHaveAtLeastOneFactor
      \<comment> \<open>line 65\<close>
  | AllFeaturesIgnored
      \<comment> \<open>raised by the collaborator \<^verbatim>\<open>ProcessIgnoredFeaturesList\<close>\<close>
  | CollaboratorFailed string
      \<comment> \<open>an exception of a collaborator that is not part of this file\<close>
  | EvictorAddressOrder nat nat nat nat
      \<comment> \<open>line 109: the labeled output \<^verbatim>\<open>Data_, Size_, data, size\<close>\<close>
  | ExpectedDispatchableColumn EColumn nat
      \<comment> \<open>line 293: "Expected Num, Baseline, Label, Categ, ...; got" column type, column index\<close>
  | UnexpectedColumnType EColumn
      \<comment> \<open>line 252: "Unexpected column type"\<close>
  | UndefinedBehaviour undefined_behaviour

subsection \<open>Chunks and chunk references\<close>

text \<open>
  \<^verbatim>\<open>TQuantizedChunk\<close> is the flatbuffer table: \<open>QuantsData\<close> is the address
  \<^verbatim>\<open>Quants()->data()\<close>, \<open>QuantsSize\<close> is \<^verbatim>\<open>Quants()->size()\<close>. The bytes themselves
  are not modelled: a part handed to the visitor is a view (address and size).
\<close>

record TQuantizedChunk =
  QuantsData :: nat
  QuantsSize :: nat
  BitsPerDocument :: nat

record TChunkDescription =
  DocumentOffset :: nat
  Chunk :: TQuantizedChunk

text \<open>\<^verbatim>\<open>TChunkRef\<close> (lines 79-83). The pool is not changed while the references
  live, so the pointer \<^verbatim>\<open>Description\<close> is modelled by the description it points to.\<close>

record TChunkRef =
  Description :: TChunkDescription
  ColumnIndex :: nat
  LocalIndex :: nat

definition ChunkData :: "TChunkRef \<Rightarrow> nat" where
  "ChunkData chunk = QuantsData (Chunk (Description chunk))"

definition ChunkSize :: "TChunkRef \<Rightarrow> nat" where
  "ChunkSize chunk = QuantsSize (Chunk (Description chunk))"

subsection \<open>The sequential chunk evictor\<close>

record TSequentialChunkEvictor =
  MinSizeInBytesToEvict :: nat
  Evicted :: bool
  Data :: nat
  Size :: nat

text \<open>The constructor (lines 100-102), with the default member initialisers of lines
  93-96.\<close>

definition NewTSequentialChunkEvictor :: "nat \<Rightarrow> TSequentialChunkEvictor" where
  "NewTSequentialChunkEvictor minSizeInBytesToEvict =
     \<lparr>MinSizeInBytesToEvict = minSizeInBytesToEvict, Evicted = False, Data = 0, Size = 0\<rparr>"

text \<open>
  \<^verbatim>\<open>Push\<close> (lines 104-123). The deferred action \<^verbatim>\<open>Y_DEFER { Evicted_ = false; }\<close>
  runs on every way out, also when \<^verbatim>\<open>CB_ENSURE\<close> throws: the state after a failed
  call has the flag cleared and is otherwise unchanged. The result is the exception, if
  any, and the state after the call.
\<close>

definition Push :: "TChunkRef \<Rightarrow> TSequentialChunkEvictor \<Rightarrow> error option \<times> TSequentialChunkEvictor" where
  "Push chunk ev =
     (let data = ChunkData chunk;
          size = ChunkSize chunk
      in if \<not> (Data ev + Size ev \<le> data)
         then (Some (EvictorAddressOrder (Data ev) (Size ev) data size), ev\<lparr>Evicted := False\<rparr>)
         else if Data ev = 0
         then (None, ev\<lparr>Data := data, Size := size, Evicted := False\<rparr>)
         else if Evicted ev
         then (let nextData = Data ev + Size ev
               in (None, ev\<lparr>Size := data - nextData + size, Data := nextData, Evicted := False\<rparr>))
         else (None, ev\<lparr>Size := data - Data ev + size, Evicted := False\<rparr>))"

text \<open>The advisory given to the operating system: \<^verbatim>\<open>MadviseEvict(Data_, Size_)\<close>.\<close>

datatype advisory = MadviseEvict nat nat

text \<open>
  \<^verbatim>\<open>MaybeEvict\<close> (lines 125-143), as built where \<^verbatim>\<open>_win_\<close> is not defined. An
  exception of \<^verbatim>\<open>MadviseEvict\<close> is caught and logged, so the call never fails; the
  result is the list of advisories issued (none or one) and the state after the call.
\<close>

definition MaybeEvict :: "bool \<Rightarrow> TSequentialChunkEvictor \<Rightarrow> advisory list \<times> TSequentialChunkEvictor" where
  "MaybeEvict force ev =
     (if Evicted ev \<or> (\<not> force \<and> Size ev < MinSizeInBytesToEvict ev)
      then ([], ev)
      else ([MadviseEvict (Data ev) (Size ev)], ev\<lparr>Evicted := True\<rparr>))"

text \<open>A sequence of calls on one evictor: it stops at the first call that throws.\<close>

datatype evictor_call = CallPush TChunkRef | CallMaybeEvict bool

fun RunCalls :: "evictor_call list \<Rightarrow> TSequentialChunkEvictor \<Rightarrow> error + TSequentialChunkEvictor" where
  "RunCalls [] ev = Inr ev"
| "RunCalls (CallPush chunk # calls) ev =
     (case Push chunk ev of
        (Some e, _) \<Rightarrow> Inl e
      | (None, ev') \<Rightarrow> RunCalls calls ev')"
| "RunCalls (CallMaybeEvict force # calls) ev = RunCalls calls (snd (MaybeEvict force ev))"

text \<open>The chunks pushed by a sequence of calls, in order.\<close>

fun PushedChunks :: "evictor_call list \<Rightarrow> TChunkRef list" where
  "PushedChunks [] = []"
| "PushedChunks (CallPush chunk # calls) = chunk # PushedChunks calls"
| "PushedChunks (CallMaybeEvict force # calls) = PushedChunks calls"

text \<open>A run of \<^verbatim>\<open>MaybeEvict\<close> calls with no \<^verbatim>\<open>Push\<close> between them: the advisories
  issued, and the state after the last call.\<close>

fun MaybeEvictRun :: "bool list \<Rightarrow> TSequentialChunkEvictor \<Rightarrow> advisory list \<times> TSequentialChunkEvictor" where
  "MaybeEvictRun [] ev = ([], ev)"
| "MaybeEvictRun (force # forces) ev =
     (let (adv, ev') = MaybeEvict force ev;
          (advs, ev'') = MaybeEvictRun forces ev'
      in (adv @ advs, ev''))"

text \<open>The second chunk starts at or after the end of the first.\<close>

definition StartsAtOrAfterEndOf :: "TChunkRef \<Rightarrow> TChunkRef \<Rightarrow> bool" where
  "StartsAtOrAfterEndOf a b = (ChunkData a + ChunkSize a \<le> ChunkData b)"

subsection \<open>The quantized pool\<close>

text \<open>
  \<^verbatim>\<open>TQuantizedPool\<close> is declared in \<^verbatim>\<open>quantized.h\<close>; the record has the members
  that \<^verbatim>\<open>loader.cpp\<close> reads. \<open>ColumnIndexToLocalIndex\<close> is a hash map: it is the list
  of its entries in the order in which the loop of line 147 meets them (the keys are
  distinct). \<open>Chunks\<close> is a deque of vectors. The three \<^verbatim>\<open>String...LocalIndex\<close> members
  are \<^verbatim>\<open>ui32\<close>; the value \<^verbatim>\<open>static_cast<ui32>(-1)\<close> means that there is no such column.
  The quantization schema is passed on to the visitor as it is and is left out.
\<close>

type_synonym TBlob = "nat list"

record TQuantizedPool =
  ColumnIndexToLocalIndex :: "(nat \<times> nat) list"
  Chunks :: "TChunkDescription list list"
  ColumnTypes :: "EColumn list"
  HasStringColumns :: bool
  StringDocIdLocalIndex :: nat
  StringGroupIdLocalIndex :: nat
  StringSubgroupIdLocalIndex :: nat
  DocumentCount :: nat
  ColumnsDump :: "TBlob list"

text \<open>\<^verbatim>\<open>static_cast<ui32>(-1)\<close> (line 158).\<close>

definition NoLocalIndex :: nat where
  "NoLocalIndex = 2 ^ 32 - 1"

subsection \<open>Gathering and sorting the chunks\<close>

text \<open>
  The inner loops of lines 148-150 and 162-164: one reference for every description of
  \<^verbatim>\<open>pool.Chunks[idx]\<close>, in order. Indexing the deque out of range is undefined.
\<close>

definition ChunkRefsOfSlot :: "TQuantizedPool \<Rightarrow> nat \<Rightarrow> nat \<Rightarrow> nat \<Rightarrow> error + TChunkRef list" where
  "ChunkRefsOfSlot pool idx columnIndex localIndex =
     (if idx < length (Chunks pool)
      then Inr (map (\<lambda>description.
                  \<lparr>Description = description, ColumnIndex = columnIndex, LocalIndex = localIndex\<rparr>)
                (Chunks pool ! idx))
      else Inl (UndefinedBehaviour IndexOutOfRange))"

text \<open>The loop of lines 147-151 over the entries of the hash map; both indices are
  cast to \<^verbatim>\<open>ui32\<close>.\<close>

fun GatherColumnChunks :: "TQuantizedPool \<Rightarrow> (nat \<times> nat) list \<Rightarrow> error + TChunkRef list" where
  "GatherColumnChunks pool [] = Inr []"
| "GatherColumnChunks pool ((columnIdx, localIdx) # entries) =
     (case ChunkRefsOfSlot pool localIdx (columnIdx mod 2 ^ 32) (localIdx mod 2 ^ 32) of
        Inl e \<Rightarrow> Inl e
      | Inr chunks \<Rightarrow>
          (case GatherColumnChunks pool entries of
             Inl e \<Rightarrow> Inl e
           | Inr others \<Rightarrow> Inr (chunks @ others)))"

text \<open>The loop of lines 157-165 over \<^verbatim>\<open>fakeIndices\<close>.\<close>

fun GatherFakeChunks :: "TQuantizedPool \<Rightarrow> nat list \<Rightarrow> error + TChunkRef list" where
  "GatherFakeChunks pool [] = Inr []"
| "GatherFakeChunks pool (fakeIdx # fakeIndices) =
     (if fakeIdx = NoLocalIndex then GatherFakeChunks pool fakeIndices
      else
        (case ChunkRefsOfSlot pool fakeIdx 0 fakeIdx of
           Inl e \<Rightarrow> Inl e
         | Inr chunks \<Rightarrow>
             (case GatherFakeChunks pool fakeIndices of
                Inl e \<Rightarrow> Inl e
              | Inr others \<Rightarrow> Inr (chunks @ others))))"

definition fakeIndices :: "TQuantizedPool \<Rightarrow> nat list" where
  "fakeIndices pool =
     [StringDocIdLocalIndex pool, StringGroupIdLocalIndex pool, StringSubgroupIdLocalIndex pool]"

text \<open>
  \<^verbatim>\<open>GatherAndSortChunks\<close> (lines 145-175). \<^verbatim>\<open>Sort\<close> orders by the address of the
  quants; it leaves the order of chunks with equal addresses open, and the model sorts
  them with the insertion sort \<open>sort_key\<close>.
\<close>

definition GatherAndSortChunks :: "TQuantizedPool \<Rightarrow> error + TChunkRef list" where
  "GatherAndSortChunks pool =
     (case GatherColumnChunks pool (ColumnIndexToLocalIndex pool) of
        Inl e \<Rightarrow> Inl e
      | Inr columnChunks \<Rightarrow>
          (case GatherFakeChunks pool (fakeIndices pool) of
             Inl e \<Rightarrow> Inl e
           | Inr fakeChunks \<Rightarrow> Inr (sort_key ChunkData (columnChunks @ fakeChunks))))"

subsection \<open>The visitor and the dispatch of one chunk\<close>

text \<open>
  What a part carries: a view of the quants of a chunk (address, size in bytes), not
  owned, or, for a baseline, the temporary vector that \<^verbatim>\<open>AssignUnaligned<double>\<close>
  fills from such a view (one \<^verbatim>\<open>float\<close> for every eight bytes). The values of the
  bytes and the narrowing of \<^verbatim>\<open>double\<close> to \<^verbatim>\<open>float\<close> are not modelled.
\<close>

datatype TPartData =
    QuantsView nat nat
  | FloatsAssignedFromDoubles nat nat

record TDataMetaInfo =
  FeatureCount :: nat
  ClassNames :: "string list"

datatype EObjectsOrder = Ordered | RandomShuffled | Undefined

text \<open>The calls on \<^verbatim>\<open>IQuantizedFeaturesDataVisitor\<close> made by this file.\<close>

datatype visitor_call =
    Start TDataMetaInfo nat EObjectsOrder
  | AddFloatFeaturePart nat nat nat TPartData
  | AddTargetPart nat TPartData
  | AddBaselinePart nat nat TPartData
  | AddWeightPart nat TPartData
  | AddGroupWeightPart nat TPartData
  | AddGroupIdPart nat TPartData
  | AddSubgroupIdPart nat TPartData
  | Finish

definition quants :: "TChunkDescription \<Rightarrow> TPartData" where
  "quants chunk = QuantsView (QuantsData (Chunk chunk)) (QuantsSize (Chunk chunk))"

text \<open>\<^verbatim>\<open>AddQuantizedFeatureChunk\<close> (lines 186-200).\<close>

definition AddQuantizedFeatureChunk :: "TChunkDescription \<Rightarrow> nat \<Rightarrow> visitor_call" where
  "AddQuantizedFeatureChunk chunk flatFeatureIdx =
     AddFloatFeaturePart flatFeatureIdx (DocumentOffset chunk) (BitsPerDocument (Chunk chunk))
       (quants chunk)"

text \<open>
  \<^verbatim>\<open>AddChunk\<close> (lines 202-255). The two pointers \<^verbatim>\<open>flatFeatureIdx\<close> and
  \<^verbatim>\<open>baselineIdx\<close> may be null: they are options, and \<^verbatim>\<open>*flatFeatureIdx\<close> on a null
  pointer is undefined behaviour. The result is the one call made on the visitor.
\<close>

fun AddChunk :: "TChunkDescription \<Rightarrow> EColumn \<Rightarrow> nat option \<Rightarrow> nat option \<Rightarrow> error + visitor_call" where
  "AddChunk chunk Num flatFeatureIdx baselineIdx =
     (case flatFeatureIdx of
        None \<Rightarrow> Inl (UndefinedBehaviour NullPointerDereference)
      | Some i \<Rightarrow> Inr (AddQuantizedFeatureChunk chunk i))"
| "AddChunk chunk Label flatFeatureIdx baselineIdx =
     Inr (AddTargetPart (DocumentOffset chunk) (quants chunk))"
| "AddChunk chunk Baseline flatFeatureIdx baselineIdx =
     (case baselineIdx of
        None \<Rightarrow> Inl (UndefinedBehaviour NullPointerDereference)
      | Some i \<Rightarrow>
          Inr (AddBaselinePart (DocumentOffset chunk) i
                 (FloatsAssignedFromDoubles (QuantsData (Chunk chunk)) (QuantsSize (Chunk chunk)))))"
| "AddChunk chunk Weight flatFeatureIdx baselineIdx =
     Inr (AddWeightPart (DocumentOffset chunk) (quants chunk))"
| "AddChunk chunk GroupWeight flatFeatureIdx baselineIdx =
     Inr (AddGroupWeightPart (DocumentOffset chunk) (quants chunk))"
| "AddChunk chunk GroupId flatFeatureIdx baselineIdx =
     Inr (AddGroupIdPart (DocumentOffset chunk) (quants chunk))"
| "AddChunk chunk SubgroupId flatFeatureIdx baselineIdx =
     Inr (AddSubgroupIdPart (DocumentOffset chunk) (quants chunk))"
| "AddChunk chunk SampleId flatFeatureIdx baselineIdx = Inl (UnexpectedColumnType SampleId)"
| "AddChunk chunk Categ flatFeatureIdx baselineIdx = Inl (UnexpectedColumnType Categ)"
| "AddChunk chunk Auxiliary flatFeatureIdx baselineIdx = Inl (UnexpectedColumnType Auxiliary)"
| "AddChunk chunk Text flatFeatureIdx baselineIdx = Inl (UnexpectedColumnType Text)"
| "AddChunk chunk Timestamp flatFeatureIdx baselineIdx = Inl (UnexpectedColumnType Timestamp)"
| "AddChunk chunk Sparse flatFeatureIdx baselineIdx = Inl (UnexpectedColumnType Sparse)"
| "AddChunk chunk Prediction flatFeatureIdx baselineIdx = Inl (UnexpectedColumnType Prediction)"

subsection \<open>The loader: construction\<close>

text \<open>\<^verbatim>\<open>TPathWithScheme\<close> (\<^verbatim>\<open>path_with_scheme.h\<close>): a path is \<^verbatim>\<open>Inited\<close> when it is
  not empty.\<close>

record TPathWithScheme =
  Scheme :: string
  Path :: string

definition Inited :: "TPathWithScheme \<Rightarrow> bool" where
  "Inited path = (Path path \<noteq> [])"

text \<open>The arguments of the constructor: \<^verbatim>\<open>TDatasetLoaderPullArgs\<close> and its
  \<^verbatim>\<open>CommonArgs\<close>. The member \<^verbatim>\<open>ObjectsOrder\<close> of the arguments is \<open>ArgsObjectsOrder\<close>
  here, the loader has a member of the same name.\<close>

record TDatasetLoaderCommonArgs =
  PairsFilePath :: TPathWithScheme
  GroupWeightsFilePath :: TPathWithScheme
  BaselineFilePath :: TPathWithScheme
  IgnoredFeatures :: "nat list"
  ArgsObjectsOrder :: EObjectsOrder

record TDatasetLoaderPullArgs =
  PoolPath :: TPathWithScheme
  CommonArgs :: TDatasetLoaderCommonArgs

text \<open>
  The functions that \<^verbatim>\<open>loader.cpp\<close> calls and other files define are parameters of the
  model: loading the pool from its path (it may throw), the test that a path exists, the
  meta information of a pool, the flat indices of the features that the pool itself
  marks as ignored, and the two maps from a column index to a flat feature index and to
  a baseline index.
\<close>

record TCollaborators =
  LoadQuantizedPool :: "TPathWithScheme \<Rightarrow> error + TQuantizedPool"
  CheckExists :: "TPathWithScheme \<Rightarrow> bool"
  GetDataMetaInfo :: "TQuantizedPool \<Rightarrow> bool \<Rightarrow> bool \<Rightarrow> TDataMetaInfo"
  GetIgnoredFlatIndices :: "TQuantizedPool \<Rightarrow> nat list"
  GetColumnIndexToFlatIndexMap :: "TQuantizedPool \<Rightarrow> (nat \<rightharpoonup> nat)"
  GetColumnIndexToBaselineIndexMap :: "TQuantizedPool \<Rightarrow> (nat \<rightharpoonup> nat)"

text \<open>
  Modelled from the spec: \<^verbatim>\<open>ProcessIgnoredFeaturesList\<close> is called at line 75 and defined
  in another file. The specification says that the merged list of ignored features
  gives "a per-feature ignored bitset sized to the feature count" ("union, duplicates
  harmless"), and counts "zero usable features after ignoring" among the fatal
  precondition errors.
\<close>

definition ProcessIgnoredFeaturesList :: "nat list \<Rightarrow> TDataMetaInfo \<Rightarrow> error + bool list" where
  "ProcessIgnoredFeaturesList allIgnoredFeatures dataMetaInfo =
     (let isFeatureIgnored =
            map (\<lambda>flatFeatureIdx. flatFeatureIdx \<in> set allIgnoredFeatures)
              [0 ..< FeatureCount dataMetaInfo]
      in if list_all (\<lambda>ignored. ignored) isFeatureIgnored then Inl AllFeaturesIgnored
         else Inr isFeatureIgnored)"

record TCBQuantizedDataLoader =
  ObjectCount :: nat
  QuantizedPool :: TQuantizedPool
  PairsPath :: TPathWithScheme
  GroupWeightsPath :: TPathWithScheme
  BaselinePath :: TPathWithScheme
  ObjectsOrder :: EObjectsOrder
  DataMetaInfo :: TDataMetaInfo
  IsFeatureIgnored :: "bool list"

text \<open>
  The constructor (lines 40-76). \<^verbatim>\<open>Max<ui32>()\<close> is \<open>2 ^ 32 - 1\<close>, and the cast
  \<^verbatim>\<open>(ui32)QuantizedPool.DocumentCount\<close> is \<open>mod 2 ^ 32\<close>. The result is the exception
  thrown or the loader constructed.
\<close>

definition NewTCBQuantizedDataLoader :: "TCollaborators \<Rightarrow> TDatasetLoaderPullArgs \<Rightarrow> error + TCBQuantizedDataLoader" where
  "NewTCBQuantizedDataLoader ext args =
     (case LoadQuantizedPool ext (PoolPath args) of
        Inl e \<Rightarrow> Inl e
      | Inr pool \<Rightarrow>
          (let pairsPath = PairsFilePath (CommonArgs args);
               groupWeightsPath = GroupWeightsFilePath (CommonArgs args);
               baselinePath = BaselineFilePath (CommonArgs args)
           in if \<not> (DocumentCount pool > 0) then Inl PoolIsEmpty
              else if \<not> (DocumentCount pool \<le> 2 ^ 32 - 1) then Inl TooManyObjects
              else if \<not> (\<not> Inited pairsPath \<or> CheckExists ext pairsPath)
                then Inl PairsFilePathDoesNotExist
              else if \<not> (\<not> Inited groupWeightsPath \<or> CheckExists ext groupWeightsPath)
                then Inl GroupWeightsFilePathDoesNotExist
              else if \<not> (\<not> Inited baselinePath \<or> CheckExists ext baselinePath)
                then Inl BaselineFilePathDoesNotExist
              else
                (let dataMetaInfo =
                       GetDataMetaInfo ext pool (Inited groupWeightsPath) (Inited pairsPath)
                 in if \<not> (FeatureCount dataMetaInfo > 0) then Inl PoolShouldHaveAtLeastOneFactor
                    else
                      (let allIgnoredFeatures =
                             IgnoredFeatures (CommonArgs args) @ GetIgnoredFlatIndices ext pool
                       in case ProcessIgnoredFeaturesList allIgnoredFeatures dataMetaInfo of
                            Inl e \<Rightarrow> Inl e
                          | Inr isFeatureIgnored \<Rightarrow>
                              Inr \<lparr>ObjectCount = DocumentCount pool mod 2 ^ 32,
                                   QuantizedPool = pool,
                                   PairsPath = pairsPath,
                                   GroupWeightsPath = groupWeightsPath,
                                   BaselinePath = baselinePath,
                                   ObjectsOrder = ArgsObjectsOrder (CommonArgs args),
                                   DataMetaInfo = dataMetaInfo,
                                   IsFeatureIgnored = isFeatureIgnored\<rparr>))))"

subsection \<open>The loader: streaming\<close>

text \<open>What \<^verbatim>\<open>Do\<close> does, in order: the calls on the visitor, the calls on the evictor,
  the advisories that \<^verbatim>\<open>MaybeEvict\<close> issues, and the three calls of lines 313-315 that
  hand the side files to the visitor.\<close>

datatype event =
    VisitorCall visitor_call
  | EvictorPush TChunkRef
  | EvictorMaybeEvict bool
  | Advisory advisory
  | SetGroupWeights TPathWithScheme nat
  | SetPairs TPathWithScheme nat
  | SetBaseline TPathWithScheme nat "string list"

text \<open>\<^verbatim>\<open>IsFeatureIgnored[*flatFeatureIdx]\<close> of line 302, for a pointer that may be null;
  indexing the vector out of range is undefined.\<close>

definition FeatureIsIgnored :: "bool list \<Rightarrow> nat option \<Rightarrow> error + bool" where
  "FeatureIsIgnored isFeatureIgnored flatFeatureIdx =
     (case flatFeatureIdx of
        None \<Rightarrow> Inr False
      | Some i \<Rightarrow>
          (if i < length isFeatureIgnored then Inr (isFeatureIgnored ! i)
           else Inl (UndefinedBehaviour IndexOutOfRange)))"

text \<open>
  Lines 276-307 of the loop of \<^verbatim>\<open>Do\<close>, for one chunk reference: the result is the
  exception thrown, or \<open>None\<close> when the chunk is skipped by \<^verbatim>\<open>continue\<close>, or the call
  that \<^verbatim>\<open>AddChunk\<close> made on the visitor.
\<close>

definition DoChunk :: "TCBQuantizedDataLoader \<Rightarrow> (nat \<rightharpoonup> nat) \<Rightarrow> (nat \<rightharpoonup> nat) \<Rightarrow> TChunkRef \<Rightarrow> error + visitor_call option" where
  "DoChunk loader columnIdxToFlatIdx columnIdxToBaselineIdx chunkRef =
     (let pool = QuantizedPool loader;
          columnIdx = ColumnIndex chunkRef;
          localIdx = LocalIndex chunkRef;
          isStringColumn = (HasStringColumns pool \<and>
            (localIdx = StringDocIdLocalIndex pool \<or>
             localIdx = StringGroupIdLocalIndex pool \<or>
             localIdx = StringSubgroupIdLocalIndex pool))
      in if isStringColumn then Inr None
         else if \<not> localIdx < length (ColumnTypes pool) then Inl (UndefinedBehaviour IndexOutOfRange)
         else
           (let columnType = ColumnTypes pool ! localIdx
            in if columnType = SampleId then Inr None
               else if \<not> (columnType = Num \<or> columnType = Baseline \<or>
                            columnType = Label \<or> columnType = Categ \<or>
                            columnType = Weight \<or> columnType = GroupWeight \<or>
                            columnType = GroupId \<or> columnType = SubgroupId)
                 then Inl (ExpectedDispatchableColumn columnType columnIdx)
               else
                 (let flatFeatureIdx = columnIdxToFlatIdx columnIdx
                  in case FeatureIsIgnored (IsFeatureIgnored loader) flatFeatureIdx of
                       Inl e \<Rightarrow> Inl e
                     | Inr True \<Rightarrow> Inr None
                     | Inr False \<Rightarrow>
                         (let baselineIdx = columnIdxToBaselineIdx columnIdx
                          in case AddChunk (Description chunkRef) columnType flatFeatureIdx baselineIdx of
                               Inl e \<Rightarrow> Inl e
                             | Inr call \<Rightarrow> Inr (Some call)))))"

text \<open>
  One turn of the loop of \<^verbatim>\<open>Do\<close> (lines 270-308). \<^verbatim>\<open>Push\<close> is called only when
  \<^verbatim>\<open>ColumnsDump\<close> is empty; when it throws, the deferred \<^verbatim>\<open>MaybeEvict\<close> of line 274 is
  not yet set up. After that the deferred \<^verbatim>\<open>evictor.MaybeEvict()\<close> runs on every way out
  of the turn: after a \<^verbatim>\<open>continue\<close>, after the dispatch, and when an exception leaves the
  turn. The result: the events, the exception that ends the loop (if any), the evictor.
\<close>

definition DoTurn :: "TCBQuantizedDataLoader \<Rightarrow> (nat \<rightharpoonup> nat) \<Rightarrow> (nat \<rightharpoonup> nat) \<Rightarrow> TChunkRef \<Rightarrow> TSequentialChunkEvictor \<Rightarrow> event list \<times> error option \<times> TSequentialChunkEvictor" where
  "DoTurn loader columnIdxToFlatIdx columnIdxToBaselineIdx chunkRef evictor =
     (let (pushEvents, pushed, evictor1) =
            (if ColumnsDump (QuantizedPool loader) = []
             then (let (thrown, evictor') = Push chunkRef evictor
                   in ([EvictorPush chunkRef], thrown, evictor'))
             else ([], None, evictor))
      in case pushed of
           Some e \<Rightarrow> (pushEvents, Some e, evictor1)
         | None \<Rightarrow>
             (let result = DoChunk loader columnIdxToFlatIdx columnIdxToBaselineIdx chunkRef;
                  (advisories, evictor2) = MaybeEvict False evictor1
              in (pushEvents
                  @ (case result of Inr (Some call) \<Rightarrow> [VisitorCall call] | _ \<Rightarrow> [])
                  @ [EvictorMaybeEvict False]
                  @ map Advisory advisories,
                  (case result of Inl e \<Rightarrow> Some e | Inr _ \<Rightarrow> None),
                  evictor2)))"

text \<open>The loop of lines 270-308: it ends at the first turn that throws.\<close>

fun DoLoop :: "TCBQuantizedDataLoader \<Rightarrow> (nat \<rightharpoonup> nat) \<Rightarrow> (nat \<rightharpoonup> nat) \<Rightarrow> TChunkRef list \<Rightarrow> TSequentialChunkEvictor \<Rightarrow> event list \<times> error option \<times> TSequentialChunkEvictor" where
  "DoLoop loader columnIdxToFlatIdx columnIdxToBaselineIdx [] evictor = ([], None, evictor)"
| "DoLoop loader columnIdxToFlatIdx columnIdxToBaselineIdx (chunkRef # chunkRefs) evictor =
     (case DoTurn loader columnIdxToFlatIdx columnIdxToBaselineIdx chunkRef evictor of
        (events, Some e, evictor') \<Rightarrow> (events, Some e, evictor')
      | (events, None, evictor') \<Rightarrow>
          (case DoLoop loader columnIdxToFlatIdx columnIdxToBaselineIdx chunkRefs evictor' of
             (later, thrown, evictor'') \<Rightarrow> (events @ later, thrown, evictor'')))"

text \<open>
  \<^verbatim>\<open>Do\<close> (lines 257-317): the events, and the exception that ended the method, if any.
  \<^verbatim>\<open>1ULL << 24\<close> is \<open>2 ^ 24\<close>. The release of the pool at line 312 has no effect
  on the events and is left out; the three calls of lines 313-315 are recorded as
  events, what they do is not part of this file.
\<close>

definition Do :: "TCollaborators \<Rightarrow> TCBQuantizedDataLoader \<Rightarrow> event list \<times> error option" where
  "Do ext loader =
     (let pool = QuantizedPool loader;
          start = VisitorCall (Start (DataMetaInfo loader) (ObjectCount loader) (ObjectsOrder loader));
          columnIdxToFlatIdx = GetColumnIndexToFlatIndexMap ext pool;
          columnIdxToBaselineIdx = GetColumnIndexToBaselineIndexMap ext pool
      in case GatherAndSortChunks pool of
           Inl e \<Rightarrow> ([start], Some e)
         | Inr chunkRefs \<Rightarrow>
             (case DoLoop loader columnIdxToFlatIdx columnIdxToBaselineIdx chunkRefs
                     (NewTSequentialChunkEvictor (2 ^ 24)) of
                (events, Some e, evictor) \<Rightarrow> (start # events, Some e)
              | (events, None, evictor) \<Rightarrow>
                  (let (advisories, evictor') = MaybeEvict True evictor
                   in (start # events
                       @ [EvictorMaybeEvict True]
                       @ map Advisory advisories
                       @ [SetGroupWeights (GroupWeightsPath loader) (ObjectCount loader),
                          SetPairs (PairsPath loader) (ObjectCount loader),
                          SetBaseline (BaselinePath loader) (ObjectCount loader)
                            (ClassNames (DataMetaInfo loader)),
                          VisitorCall Finish],
                       None))))"

subsection \<open>Example inputs\<close>

text \<open>Concrete inputs on which the theorems below are evaluated. A chunk description
  with eight bits per document:\<close>

definition ExampleChunk :: "nat \<Rightarrow> nat \<Rightarrow> nat \<Rightarrow> TChunkDescription" where
  "ExampleChunk documentOffset address bytes =
     \<lparr>DocumentOffset = documentOffset,
      Chunk = \<lparr>QuantsData = address, QuantsSize = bytes, BitsPerDocument = 8\<rparr>\<rparr>"

definition ExampleChunkRef :: "nat \<Rightarrow> nat \<Rightarrow> TChunkRef" where
  "ExampleChunkRef address bytes =
     \<lparr>Description = ExampleChunk 0 address bytes, ColumnIndex = 0, LocalIndex = 0\<rparr>"

text \<open>A pool read from a mapped file: three documents; column 0 is a feature with two
  chunks, column 1 is the label, column 2 is a second feature; no string columns.\<close>

definition ExamplePool :: TQuantizedPool where
  "ExamplePool =
     \<lparr>ColumnIndexToLocalIndex = [(0, 0), (1, 1), (2, 2)],
      Chunks = [[ExampleChunk 0 4096 2, ExampleChunk 2 4200 1], [ExampleChunk 0 4100 12],
                [ExampleChunk 0 4120 3]],
      ColumnTypes = [Num, Label, Num],
      HasStringColumns = False,
      StringDocIdLocalIndex = NoLocalIndex,
      StringGroupIdLocalIndex = NoLocalIndex,
      StringSubgroupIdLocalIndex = NoLocalIndex,
      DocumentCount = 3,
      ColumnsDump = []\<rparr>"

text \<open>The same pool with a fourth slot that holds the document ids as strings.\<close>

definition ExampleStringPool :: TQuantizedPool where
  "ExampleStringPool =
     ExamplePool
       \<lparr>Chunks := [[ExampleChunk 0 4096 2, ExampleChunk 2 4200 1], [ExampleChunk 0 4100 12],
                   [ExampleChunk 0 4120 3], [ExampleChunk 0 4300 30]],
        HasStringColumns := True,
        StringDocIdLocalIndex := 3\<rparr>"

text \<open>Collaborators for a pool: loading gives that pool, no file exists, there are two
  features, the pool marks no feature as ignored, columns 0 and 2 are the flat features
  0 and 1, and no column is a baseline.\<close>

definition ExampleCollaborators :: "TQuantizedPool \<Rightarrow> TCollaborators" where
  "ExampleCollaborators pool =
     \<lparr>LoadQuantizedPool = (\<lambda>path. Inr pool),
      CheckExists = (\<lambda>path. False),
      GetDataMetaInfo = (\<lambda>pool hasGroupWeights hasPairs. \<lparr>FeatureCount = 2, ClassNames = []\<rparr>),
      GetIgnoredFlatIndices = (\<lambda>pool. []),
      GetColumnIndexToFlatIndexMap = (\<lambda>pool. [0 \<mapsto> 0, 2 \<mapsto> 1]),
      GetColumnIndexToBaselineIndexMap = (\<lambda>pool. Map.empty)\<rparr>"

definition NoPath :: TPathWithScheme where
  "NoPath = \<lparr>Scheme = [], Path = []\<rparr>"

definition ExampleArgs :: TDatasetLoaderPullArgs where
  "ExampleArgs =
     \<lparr>PoolPath = \<lparr>Scheme = ''quantized'', Path = ''pool.bin''\<rparr>,
      CommonArgs =
        \<lparr>PairsFilePath = NoPath,
         GroupWeightsFilePath = NoPath,
         BaselineFilePath = NoPath,
         IgnoredFeatures = [],
         ArgsObjectsOrder = Undefined\<rparr>\<rparr>"

text \<open>The loader that the constructor builds from \<open>ExampleArgs\<close> for a pool.\<close>

definition ExampleLoader :: "TQuantizedPool \<Rightarrow> TCBQuantizedDataLoader" where
  "ExampleLoader pool =
     \<lparr>ObjectCount = 3,
      QuantizedPool = pool,
      PairsPath = NoPath,
      GroupWeightsPath = NoPath,
      BaselinePath = NoPath,
      ObjectsOrder = Undefined,
      DataMetaInfo = \<lparr>FeatureCount = 2, ClassNames = []\<rparr>,
      IsFeatureIgnored = [False, False]\<rparr>"

subsection \<open>Predicates used in the statements\<close>

text \<open>The exceptions of the checks of lines 48-61 of the constructor.\<close>

definition ValidationError :: "error \<Rightarrow> bool" where
  "ValidationError e =
     (e = PoolIsEmpty \<or> e = TooManyObjects \<or> e = PairsFilePathDoesNotExist
      \<or> e = GroupWeightsFilePathDoesNotExist \<or> e = BaselineFilePathDoesNotExist)"

text \<open>The calls on the visitor among the events, in order.\<close>

fun VisitorCalls :: "event list \<Rightarrow> visitor_call list" where
  "VisitorCalls [] = []"
| "VisitorCalls (VisitorCall call # events) = call # VisitorCalls events"
| "VisitorCalls (e # events) = VisitorCalls events"

text \<open>The advisories among the events, in order.\<close>

fun Advisories :: "event list \<Rightarrow> advisory list" where
  "Advisories [] = []"
| "Advisories (Advisory a # events) = a # Advisories events"
| "Advisories (e # events) = Advisories events"

text \<open>The three string slots of a pool, as line 279-281 names them.\<close>

definition IsStringSlot :: "TQuantizedPool \<Rightarrow> nat \<Rightarrow> bool" where
  "IsStringSlot pool localIdx =
     (localIdx = StringDocIdLocalIndex pool \<or> localIdx = StringGroupIdLocalIndex pool
      \<or> localIdx = StringSubgroupIdLocalIndex pool)"

section \<open>The evictor\<close>

subsection \<open>Push: which calls fail\<close>

lemma Push_succeeds_iff:
  "fst (Push chunk ev) = None \<longleftrightarrow> Data ev + Size ev \<le> ChunkData chunk"
  by (simp add: Push_def Let_def)

text \<open>After a call that does not fail, the visited range ends where the chunk ends,
  in each of the three branches.\<close>

lemma Push_visited_end:
  "fst (Push chunk ev) = None \<Longrightarrow>
   Data (snd (Push chunk ev)) + Size (snd (Push chunk ev)) = ChunkData chunk + ChunkSize chunk"
  by (auto simp: Push_def Let_def split: if_splits)

text \<open>
  The arithmetic of \<^verbatim>\<open>Push\<close> is on \<^verbatim>\<open>size_t\<close> and on pointers. When the chunk ends inside
  the address space, so does the visited range after the call, and its length is below
  \<open>2 ^ 64\<close>: no sum of \<^verbatim>\<open>Push\<close> wraps around, and the natural numbers of the model are
  the values of the program.
\<close>

lemma Push_within_address_space:
  assumes "fst (Push chunk ev) = None" and "ChunkData chunk + ChunkSize chunk < 2 ^ 64"
  shows "Data (snd (Push chunk ev)) + Size (snd (Push chunk ev)) < 2 ^ 64
     \<and> Data (snd (Push chunk ev)) < 2 ^ 64 \<and> Size (snd (Push chunk ev)) < 2 ^ 64"
  using Push_visited_end [OF assms(1)] assms(2) by simp

lemma MaybeEvict_keeps_range:
  "Data (snd (MaybeEvict force ev)) = Data ev \<and> Size (snd (MaybeEvict force ev)) = Size ev
   \<and> MinSizeInBytesToEvict (snd (MaybeEvict force ev)) = MinSizeInBytesToEvict ev"
  by (simp add: MaybeEvict_def)

lemma RunCalls_succeeds:
  "successively StartsAtOrAfterEndOf (PushedChunks calls) \<Longrightarrow>
   (case PushedChunks calls of [] \<Rightarrow> True | c # _ \<Rightarrow> Data ev + Size ev \<le> ChunkData c) \<Longrightarrow>
   \<exists>ev'. RunCalls calls ev = Inr ev'"
proof (induction calls ev rule: RunCalls.induct)
  case (1 ev)
  then show ?case by simp
next
  case (2 chunk calls ev)
  from "2.prems"(2) have ok: "fst (Push chunk ev) = None"
    by (simp add: Push_succeeds_iff)
  then obtain ev' where p: "Push chunk ev = (None, ev')"
    by (cases "Push chunk ev") auto
  have e: "Data ev' + Size ev' = ChunkData chunk + ChunkSize chunk"
    using Push_visited_end [OF ok] p by simp
  have s: "successively StartsAtOrAfterEndOf (PushedChunks calls)"
    using "2.prems"(1) by (cases "PushedChunks calls") auto
  have h: "case PushedChunks calls of [] \<Rightarrow> True | c # _ \<Rightarrow> Data ev' + Size ev' \<le> ChunkData c"
    using "2.prems"(1) e by (cases "PushedChunks calls") (auto simp: StartsAtOrAfterEndOf_def)
  from "2.IH" p s h show ?case by auto
next
  case (3 force calls ev)
  then show ?case by (cases "PushedChunks calls") (simp_all add: MaybeEvict_keeps_range)
qed

text \<open>
  Claim C2. Take a new evictor and any sequence of \<^verbatim>\<open>Push\<close> and \<^verbatim>\<open>MaybeEvict\<close> calls in
  which every pushed chunk starts at or after the end of the chunk pushed before it (so
  the start addresses do not decrease and no chunk overlaps what was visited): no call
  fails. And in any state of the evictor, a \<^verbatim>\<open>Push\<close> of a chunk whose address is below
  the visited end \<open>Data + Size\<close> fails with the exception of line 109; \<^verbatim>\<open>Push\<close> succeeds
  exactly when the chunk starts at or after the visited end.
\<close>

theorem Push_forward_sequence_never_fails:
  "(successively StartsAtOrAfterEndOf (PushedChunks calls) \<longrightarrow>
      (\<exists>ev'. RunCalls calls (NewTSequentialChunkEvictor minSize) = Inr ev'))
   \<and> (ChunkData chunk < Data ev + Size ev \<longrightarrow>
        fst (Push chunk ev) =
          Some (EvictorAddressOrder (Data ev) (Size ev) (ChunkData chunk) (ChunkSize chunk)))
   \<and> (fst (Push chunk ev) = None \<longleftrightarrow> Data ev + Size ev \<le> ChunkData chunk)"
proof (intro conjI impI)
  assume s: "successively StartsAtOrAfterEndOf (PushedChunks calls)"
  have "case PushedChunks calls of [] \<Rightarrow> True
        | c # _ \<Rightarrow> Data (NewTSequentialChunkEvictor minSize)
                    + Size (NewTSequentialChunkEvictor minSize) \<le> ChunkData c"
    by (simp add: NewTSequentialChunkEvictor_def split: list.split)
  with s show "\<exists>ev'. RunCalls calls (NewTSequentialChunkEvictor minSize) = Inr ev'"
    by (rule RunCalls_succeeds)
next
  assume "ChunkData chunk < Data ev + Size ev"
  then show "fst (Push chunk ev) =
          Some (EvictorAddressOrder (Data ev) (Size ev) (ChunkData chunk) (ChunkSize chunk))"
    by (simp add: Push_def Let_def)
next
  show "fst (Push chunk ev) = None \<longleftrightarrow> Data ev + Size ev \<le> ChunkData chunk"
    by (rule Push_succeeds_iff)
qed

text \<open>Three chunks in address order with a gap, a forced eviction between them, and a
  chunk of no bytes; then a chunk that starts inside the visited range.\<close>

theorem Push_forward_sequence_never_fails_witness:
  "successively StartsAtOrAfterEndOf
     (PushedChunks [CallPush (ExampleChunkRef 4096 100), CallMaybeEvict True,
                    CallPush (ExampleChunkRef 4200 50), CallPush (ExampleChunkRef 4250 0)])
   \<and> (\<exists>ev'. RunCalls [CallPush (ExampleChunkRef 4096 100), CallMaybeEvict True,
                       CallPush (ExampleChunkRef 4200 50), CallPush (ExampleChunkRef 4250 0)]
               (NewTSequentialChunkEvictor (2 ^ 24)) = Inr ev')
   \<and> ChunkData (ExampleChunkRef 4100 8)
       < Data \<lparr>MinSizeInBytesToEvict = 2 ^ 24, Evicted = False, Data = 4096, Size = 100\<rparr>
         + Size \<lparr>MinSizeInBytesToEvict = 2 ^ 24, Evicted = False, Data = 4096, Size = 100\<rparr>
   \<and> fst (Push (ExampleChunkRef 4100 8)
             \<lparr>MinSizeInBytesToEvict = 2 ^ 24, Evicted = False, Data = 4096, Size = 100\<rparr>)
       = Some (EvictorAddressOrder 4096 100 4100 8)"
proof -
  have s: "successively StartsAtOrAfterEndOf
     (PushedChunks [CallPush (ExampleChunkRef 4096 100), CallMaybeEvict True,
                    CallPush (ExampleChunkRef 4200 50), CallPush (ExampleChunkRef 4250 0)])"
    by (simp add: StartsAtOrAfterEndOf_def ChunkData_def ChunkSize_def ExampleChunkRef_def
        ExampleChunk_def)
  have b: "ChunkData (ExampleChunkRef 4100 8)
       < Data \<lparr>MinSizeInBytesToEvict = 2 ^ 24, Evicted = False, Data = 4096, Size = 100\<rparr>
         + Size \<lparr>MinSizeInBytesToEvict = 2 ^ 24, Evicted = False, Data = 4096, Size = 100\<rparr>"
    by (simp add: ChunkData_def ExampleChunkRef_def ExampleChunk_def)
  note t = Push_forward_sequence_never_fails
    [of "[CallPush (ExampleChunkRef 4096 100), CallMaybeEvict True,
          CallPush (ExampleChunkRef 4200 50), CallPush (ExampleChunkRef 4250 0)]"
        "2 ^ 24" "ExampleChunkRef 4100 8"
        "\<lparr>MinSizeInBytesToEvict = 2 ^ 24, Evicted = False, Data = 4096, Size = 100\<rparr>"]
  from t s have r: "\<exists>ev'. RunCalls [CallPush (ExampleChunkRef 4096 100), CallMaybeEvict True,
                       CallPush (ExampleChunkRef 4200 50), CallPush (ExampleChunkRef 4250 0)]
               (NewTSequentialChunkEvictor (2 ^ 24)) = Inr ev'"
    by blast
  from t b have f: "fst (Push (ExampleChunkRef 4100 8)
             \<lparr>MinSizeInBytesToEvict = 2 ^ 24, Evicted = False, Data = 4096, Size = 100\<rparr>)
       = Some (EvictorAddressOrder 4096 100 4100 8)"
    by (simp add: ChunkData_def ChunkSize_def ExampleChunkRef_def ExampleChunk_def)
  from s r b f show ?thesis by blast
qed

subsection \<open>MaybeEvict: the threshold and the forced call\<close>

lemma MaybeEvictRun_Evicted:
  "Evicted ev \<Longrightarrow> MaybeEvictRun forces ev = ([], ev)"
  by (induction forces) (simp_all add: MaybeEvict_def)

text \<open>A run of calls with no \<^verbatim>\<open>Push\<close> between them issues the advisory once, at its
  first call that is forced or finds the threshold reached, and never again.\<close>

lemma MaybeEvictRun_advisories:
  "fst (MaybeEvictRun forces ev) =
     (if \<not> Evicted ev \<and> (\<exists>force \<in> set forces. force \<or> MinSizeInBytesToEvict ev \<le> Size ev)
      then [MadviseEvict (Data ev) (Size ev)] else [])"
proof (induction forces)
  case Nil
  then show ?case by simp
next
  case (Cons force forces)
  show ?case
  proof (cases "Evicted ev \<or> (\<not> force \<and> Size ev < MinSizeInBytesToEvict ev)")
    case True
    then have "MaybeEvict force ev = ([], ev)" by (simp add: MaybeEvict_def)
    with True Cons show ?thesis by (auto simp: split_beta)
  next
    case False
    then have m: "MaybeEvict force ev = ([MadviseEvict (Data ev) (Size ev)], ev\<lparr>Evicted := True\<rparr>)"
      by (simp add: MaybeEvict_def)
    have r: "MaybeEvictRun forces (ev\<lparr>Evicted := True\<rparr>) = ([], ev\<lparr>Evicted := True\<rparr>)"
      by (rule MaybeEvictRun_Evicted) simp
    have "fst (MaybeEvictRun (force # forces) ev) = [MadviseEvict (Data ev) (Size ev)]"
      by (simp add: m r)
    moreover from False have "\<not> Evicted ev \<and> (force \<or> MinSizeInBytesToEvict ev \<le> Size ev)"
      by auto
    ultimately show ?thesis by simp
  qed
qed

text \<open>
  Claim C3, as the specification states it, in its last part: \<^verbatim>\<open>maybe_evict(true)\<close> "is a
  no-op only when nothing was ever pushed (zero-length initial state)". On a new evictor,
  on which nothing was pushed, the forced call is not a no-op: it issues the advisory for
  the empty range at the null address and sets the flag. And the forced call is a no-op
  in a state in which a chunk was pushed: right after an eviction.
\<close>

theorem MaybeEvict_forced_on_new_evictor_counterexample:
  "MaybeEvict True (NewTSequentialChunkEvictor (2 ^ 24))
     = ([MadviseEvict 0 0], (NewTSequentialChunkEvictor (2 ^ 24))\<lparr>Evicted := True\<rparr>)
   \<and> MaybeEvict True (NewTSequentialChunkEvictor (2 ^ 24))
     \<noteq> ([], NewTSequentialChunkEvictor (2 ^ 24))
   \<and> Push (ExampleChunkRef 4096 100) (NewTSequentialChunkEvictor (2 ^ 24))
     = (None, \<lparr>MinSizeInBytesToEvict = 2 ^ 24, Evicted = False, Data = 4096, Size = 100\<rparr>)
   \<and> MaybeEvict True \<lparr>MinSizeInBytesToEvict = 2 ^ 24, Evicted = False, Data = 4096, Size = 100\<rparr>
     = ([MadviseEvict 4096 100],
        \<lparr>MinSizeInBytesToEvict = 2 ^ 24, Evicted = True, Data = 4096, Size = 100\<rparr>)
   \<and> MaybeEvict True \<lparr>MinSizeInBytesToEvict = 2 ^ 24, Evicted = True, Data = 4096, Size = 100\<rparr>
     = ([], \<lparr>MinSizeInBytesToEvict = 2 ^ 24, Evicted = True, Data = 4096, Size = 100\<rparr>)"
  by (simp add: MaybeEvict_def Push_def NewTSequentialChunkEvictor_def ChunkData_def
      ChunkSize_def ExampleChunkRef_def ExampleChunk_def Let_def)

text \<open>
  Claim C3, amended. \<^verbatim>\<open>MaybeEvict(false)\<close> is a no-op while the flag is set or the visited
  length is below the threshold, which \<^verbatim>\<open>Do\<close> sets to 16 MiB; otherwise it issues
  the advisory for the visited range and sets the flag. \<^verbatim>\<open>MaybeEvict(true)\<close> issues the
  advisory and sets the flag whenever the flag is not set, whatever the visited length,
  also on a new evictor; it is a no-op exactly when the flag is set. In a run of calls
  with no \<^verbatim>\<open>Push\<close> between them the advisory is issued at most once: once if the flag
  is not set at the start and some call of the run is forced or finds the threshold
  reached, and not at all otherwise.
\<close>

theorem MaybeEvict_threshold_and_force:
  "(Evicted ev \<or> (\<not> force \<and> Size ev < MinSizeInBytesToEvict ev) \<longrightarrow>
      MaybeEvict force ev = ([], ev))
   \<and> (\<not> Evicted ev \<and> (force \<or> MinSizeInBytesToEvict ev \<le> Size ev) \<longrightarrow>
      MaybeEvict force ev = ([MadviseEvict (Data ev) (Size ev)], ev\<lparr>Evicted := True\<rparr>))
   \<and> (MaybeEvict True ev = ([], ev) \<longleftrightarrow> Evicted ev)
   \<and> fst (MaybeEvictRun forces ev) =
       (if \<not> Evicted ev \<and> (\<exists>f \<in> set forces. f \<or> MinSizeInBytesToEvict ev \<le> Size ev)
        then [MadviseEvict (Data ev) (Size ev)] else [])
   \<and> MinSizeInBytesToEvict (NewTSequentialChunkEvictor (2 ^ 24)) = 16 * 1024 * 1024"
proof (intro conjI impI)
  show "fst (MaybeEvictRun forces ev) =
       (if \<not> Evicted ev \<and> (\<exists>f \<in> set forces. f \<or> MinSizeInBytesToEvict ev \<le> Size ev)
        then [MadviseEvict (Data ev) (Size ev)] else [])"
    by (rule MaybeEvictRun_advisories)
next
  assume "Evicted ev \<or> (\<not> force \<and> Size ev < MinSizeInBytesToEvict ev)"
  then show "MaybeEvict force ev = ([], ev)"
    by (simp add: MaybeEvict_def)
next
  assume "\<not> Evicted ev \<and> (force \<or> MinSizeInBytesToEvict ev \<le> Size ev)"
  then have "\<not> (Evicted ev \<or> (\<not> force \<and> Size ev < MinSizeInBytesToEvict ev))"
    by auto
  then show "MaybeEvict force ev = ([MadviseEvict (Data ev) (Size ev)], ev\<lparr>Evicted := True\<rparr>)"
    unfolding MaybeEvict_def by simp
next
  show "MaybeEvict True ev = ([], ev) \<longleftrightarrow> Evicted ev"
    by (simp add: MaybeEvict_def)
next
  show "MinSizeInBytesToEvict (NewTSequentialChunkEvictor (2 ^ 24)) = 16 * 1024 * 1024"
    by (simp add: NewTSequentialChunkEvictor_def)
qed

text \<open>A visited range of 100 bytes, flag not set: the call without force is a no-op,
  the forced call issues the advisory, and of the calls false, true, true, false only
  the second issues it.\<close>

theorem MaybeEvict_threshold_and_force_witness:
  "MaybeEvict False \<lparr>MinSizeInBytesToEvict = 2 ^ 24, Evicted = False, Data = 4096, Size = 100\<rparr>
     = ([], \<lparr>MinSizeInBytesToEvict = 2 ^ 24, Evicted = False, Data = 4096, Size = 100\<rparr>)
   \<and> MaybeEvict True \<lparr>MinSizeInBytesToEvict = 2 ^ 24, Evicted = False, Data = 4096, Size = 100\<rparr>
     = ([MadviseEvict 4096 100],
        \<lparr>MinSizeInBytesToEvict = 2 ^ 24, Evicted = True, Data = 4096, Size = 100\<rparr>)
   \<and> fst (MaybeEvictRun [False, True, True, False]
            \<lparr>MinSizeInBytesToEvict = 2 ^ 24, Evicted = False, Data = 4096, Size = 100\<rparr>)
     = [MadviseEvict 4096 100]"
proof -
  let ?ev = "\<lparr>MinSizeInBytesToEvict = 2 ^ 24, Evicted = False, Data = 4096, Size = 100\<rparr>"
  have a: "MaybeEvict False ?ev = ([], ?ev)"
    using MaybeEvict_threshold_and_force [of ?ev False "[]"] by simp
  have b: "MaybeEvict True ?ev = ([MadviseEvict 4096 100], ?ev\<lparr>Evicted := True\<rparr>)"
    using MaybeEvict_threshold_and_force [of ?ev True "[]"] by simp
  have c: "fst (MaybeEvictRun [False, True, True, False] ?ev) = [MadviseEvict 4096 100]"
    using MaybeEvict_threshold_and_force [of ?ev True "[False, True, True, False]"] by simp
  from a b c show ?thesis by simp
qed

subsection \<open>Push: the visited range\<close>

text \<open>
  Claim C4, as the specification states it, in its second case: after an eviction "the
  visited range is reset to start at this chunk". A chunk of 100 bytes at 4096 is
  pushed and evicted by force, then a chunk of 50 bytes at 8192 is pushed: the visited
  range then starts at 4196, the end of the range that was evicted, not at 8192.
\<close>

theorem Push_after_eviction_counterexample:
  "snd (MaybeEvict True (snd (Push (ExampleChunkRef 4096 100) (NewTSequentialChunkEvictor (2 ^ 24)))))
     = \<lparr>MinSizeInBytesToEvict = 2 ^ 24, Evicted = True, Data = 4096, Size = 100\<rparr>
   \<and> Push (ExampleChunkRef 8192 50)
        \<lparr>MinSizeInBytesToEvict = 2 ^ 24, Evicted = True, Data = 4096, Size = 100\<rparr>
     = (None, \<lparr>MinSizeInBytesToEvict = 2 ^ 24, Evicted = False, Data = 4196, Size = 4046\<rparr>)
   \<and> ChunkData (ExampleChunkRef 8192 50) = 8192
   \<and> Data (snd (Push (ExampleChunkRef 8192 50)
        \<lparr>MinSizeInBytesToEvict = 2 ^ 24, Evicted = True, Data = 4096, Size = 100\<rparr>))
     \<noteq> ChunkData (ExampleChunkRef 8192 50)"
  by (simp add: MaybeEvict_def Push_def NewTSequentialChunkEvictor_def ChunkData_def
      ChunkSize_def ExampleChunkRef_def ExampleChunk_def Let_def)

text \<open>
  Claim C4, amended. For a \<^verbatim>\<open>Push\<close> that does not fail: if no chunk was pushed before
  (the base is null), the visited range becomes the byte range of the chunk. Otherwise,
  if the flag is set by a previous \<^verbatim>\<open>MaybeEvict\<close>, the visited range is reset to start at
  the end of the range visited so far, and its length is the gap up to the chunk plus the
  length of the chunk. Otherwise the range keeps its base and is extended to the end of
  the chunk, the gap counted as visited. In each of these cases the range ends where the
  chunk ends. A \<^verbatim>\<open>Push\<close> that fails leaves the range as it was. Every \<^verbatim>\<open>Push\<close> clears the
  flag.
\<close>

theorem Push_visited_range:
  "(fst (Push chunk ev) = None \<longrightarrow>
      (Data ev = 0 \<longrightarrow>
         Data (snd (Push chunk ev)) = ChunkData chunk
         \<and> Size (snd (Push chunk ev)) = ChunkSize chunk)
      \<and> (Data ev \<noteq> 0 \<and> Evicted ev \<longrightarrow>
         Data (snd (Push chunk ev)) = Data ev + Size ev
         \<and> Size (snd (Push chunk ev))
             = (ChunkData chunk - (Data ev + Size ev)) + ChunkSize chunk)
      \<and> (Data ev \<noteq> 0 \<and> \<not> Evicted ev \<longrightarrow>
         Data (snd (Push chunk ev)) = Data ev
         \<and> Size (snd (Push chunk ev)) = (ChunkData chunk - Data ev) + ChunkSize chunk)
      \<and> Data (snd (Push chunk ev)) + Size (snd (Push chunk ev))
          = ChunkData chunk + ChunkSize chunk)
   \<and> (fst (Push chunk ev) \<noteq> None \<longrightarrow>
      Data (snd (Push chunk ev)) = Data ev \<and> Size (snd (Push chunk ev)) = Size ev)
   \<and> \<not> Evicted (snd (Push chunk ev))
   \<and> MinSizeInBytesToEvict (snd (Push chunk ev)) = MinSizeInBytesToEvict ev"
proof (intro conjI impI)
  assume ok: "fst (Push chunk ev) = None"
  then have le: "Data ev + Size ev \<le> ChunkData chunk"
    by (simp add: Push_succeeds_iff)
  show "Data (snd (Push chunk ev)) + Size (snd (Push chunk ev))
             = ChunkData chunk + ChunkSize chunk"
    using ok by (rule Push_visited_end)
  { assume "Data ev = 0"
    with le show "Data (snd (Push chunk ev)) = ChunkData chunk"
      and "Size (snd (Push chunk ev)) = ChunkSize chunk"
      by (simp_all add: Push_def Let_def) }
  { assume "Data ev \<noteq> 0 \<and> Evicted ev"
    with le show "Data (snd (Push chunk ev)) = Data ev + Size ev"
      and "Size (snd (Push chunk ev))
             = (ChunkData chunk - (Data ev + Size ev)) + ChunkSize chunk"
      by (simp_all add: Push_def Let_def) }
  { assume "Data ev \<noteq> 0 \<and> \<not> Evicted ev"
    with le show "Data (snd (Push chunk ev)) = Data ev"
      and "Size (snd (Push chunk ev)) = (ChunkData chunk - Data ev) + ChunkSize chunk"
      by (simp_all add: Push_def Let_def) }
next
  assume "fst (Push chunk ev) \<noteq> None"
  then show "Data (snd (Push chunk ev)) = Data ev" and "Size (snd (Push chunk ev)) = Size ev"
    by (simp_all add: Push_def Let_def split: if_splits)
next
  show "\<not> Evicted (snd (Push chunk ev))"
    and "MinSizeInBytesToEvict (snd (Push chunk ev)) = MinSizeInBytesToEvict ev"
    by (simp_all add: Push_def Let_def)
qed

text \<open>The three cases on concrete states: a first chunk, a chunk after an eviction,
  and a chunk that extends the range.\<close>

theorem Push_visited_range_witness:
  "fst (Push (ExampleChunkRef 4096 100) (NewTSequentialChunkEvictor (2 ^ 24))) = None
   \<and> Data (snd (Push (ExampleChunkRef 4096 100) (NewTSequentialChunkEvictor (2 ^ 24)))) = 4096
   \<and> Size (snd (Push (ExampleChunkRef 4096 100) (NewTSequentialChunkEvictor (2 ^ 24)))) = 100
   \<and> fst (Push (ExampleChunkRef 8192 50)
        \<lparr>MinSizeInBytesToEvict = 2 ^ 24, Evicted = True, Data = 4096, Size = 100\<rparr>) = None
   \<and> Data (snd (Push (ExampleChunkRef 8192 50)
        \<lparr>MinSizeInBytesToEvict = 2 ^ 24, Evicted = True, Data = 4096, Size = 100\<rparr>)) = 4196
   \<and> Size (snd (Push (ExampleChunkRef 8192 50)
        \<lparr>MinSizeInBytesToEvict = 2 ^ 24, Evicted = True, Data = 4096, Size = 100\<rparr>)) = 4046
   \<and> fst (Push (ExampleChunkRef 8192 50)
        \<lparr>MinSizeInBytesToEvict = 2 ^ 24, Evicted = False, Data = 4096, Size = 100\<rparr>) = None
   \<and> Data (snd (Push (ExampleChunkRef 8192 50)
        \<lparr>MinSizeInBytesToEvict = 2 ^ 24, Evicted = False, Data = 4096, Size = 100\<rparr>)) = 4096
   \<and> Size (snd (Push (ExampleChunkRef 8192 50)
        \<lparr>MinSizeInBytesToEvict = 2 ^ 24, Evicted = False, Data = 4096, Size = 100\<rparr>)) = 4146"
proof -
  have c: "ChunkData (ExampleChunkRef 4096 100) = 4096" "ChunkSize (ExampleChunkRef 4096 100) = 100"
    "ChunkData (ExampleChunkRef 8192 50) = 8192" "ChunkSize (ExampleChunkRef 8192 50) = 50"
    by (simp_all add: ChunkData_def ChunkSize_def ExampleChunkRef_def ExampleChunk_def)
  have p1: "fst (Push (ExampleChunkRef 4096 100) (NewTSequentialChunkEvictor (2 ^ 24))) = None"
    by (simp add: Push_succeeds_iff c NewTSequentialChunkEvictor_def)
  have p2: "fst (Push (ExampleChunkRef 8192 50)
        \<lparr>MinSizeInBytesToEvict = 2 ^ 24, Evicted = True, Data = 4096, Size = 100\<rparr>) = None"
    by (simp add: Push_succeeds_iff c)
  have p3: "fst (Push (ExampleChunkRef 8192 50)
        \<lparr>MinSizeInBytesToEvict = 2 ^ 24, Evicted = False, Data = 4096, Size = 100\<rparr>) = None"
    by (simp add: Push_succeeds_iff c)
  from Push_visited_range [of "ExampleChunkRef 4096 100" "NewTSequentialChunkEvictor (2 ^ 24)"] p1 have r1:
    "Data (snd (Push (ExampleChunkRef 4096 100) (NewTSequentialChunkEvictor (2 ^ 24)))) = 4096
     \<and> Size (snd (Push (ExampleChunkRef 4096 100) (NewTSequentialChunkEvictor (2 ^ 24)))) = 100"
    by (simp add: c NewTSequentialChunkEvictor_def)
  from Push_visited_range [of "ExampleChunkRef 8192 50" "\<lparr>MinSizeInBytesToEvict = 2 ^ 24, Evicted = True, Data = 4096, Size = 100\<rparr>"] p2 have r2:
    "Data (snd (Push (ExampleChunkRef 8192 50)
        \<lparr>MinSizeInBytesToEvict = 2 ^ 24, Evicted = True, Data = 4096, Size = 100\<rparr>)) = 4196
     \<and> Size (snd (Push (ExampleChunkRef 8192 50)
        \<lparr>MinSizeInBytesToEvict = 2 ^ 24, Evicted = True, Data = 4096, Size = 100\<rparr>)) = 4046"
    by (simp add: c)
  from Push_visited_range [of "ExampleChunkRef 8192 50" "\<lparr>MinSizeInBytesToEvict = 2 ^ 24, Evicted = False, Data = 4096, Size = 100\<rparr>"] p3 have r3:
    "Data (snd (Push (ExampleChunkRef 8192 50)
        \<lparr>MinSizeInBytesToEvict = 2 ^ 24, Evicted = False, Data = 4096, Size = 100\<rparr>)) = 4096
     \<and> Size (snd (Push (ExampleChunkRef 8192 50)
        \<lparr>MinSizeInBytesToEvict = 2 ^ 24, Evicted = False, Data = 4096, Size = 100\<rparr>)) = 4146"
    by (simp add: c)
  from p1 p2 p3 r1 r2 r3 show ?thesis by blast
qed

section \<open>The gatherer\<close>





section \<open>The constructor\<close>

lemma NewTCBQuantizedDataLoader_PoolIsEmpty:
  "LoadQuantizedPool ext (PoolPath args) = Inr pool \<Longrightarrow> DocumentCount pool = 0 \<Longrightarrow>
   NewTCBQuantizedDataLoader ext args = Inl PoolIsEmpty"
  by (simp add: NewTCBQuantizedDataLoader_def)

lemma NewTCBQuantizedDataLoader_TooManyObjects:
  "LoadQuantizedPool ext (PoolPath args) = Inr pool \<Longrightarrow> 2 ^ 32 - 1 < DocumentCount pool \<Longrightarrow>
   NewTCBQuantizedDataLoader ext args = Inl TooManyObjects"
  by (simp add: NewTCBQuantizedDataLoader_def)

lemma NewTCBQuantizedDataLoader_missing_file:
  assumes "LoadQuantizedPool ext (PoolPath args) = Inr pool"
    and "path = PairsFilePath (CommonArgs args) \<or> path = GroupWeightsFilePath (CommonArgs args)
         \<or> path = BaselineFilePath (CommonArgs args)"
    and "Inited path" and "\<not> CheckExists ext path"
  shows "\<exists>e. NewTCBQuantizedDataLoader ext args = Inl e \<and> ValidationError e"
  using assms by (auto simp: NewTCBQuantizedDataLoader_def ValidationError_def Let_def)

lemma NewTCBQuantizedDataLoader_Inr:
  assumes "LoadQuantizedPool ext (PoolPath args) = Inr pool"
    and "NewTCBQuantizedDataLoader ext args = Inr loader"
  shows "QuantizedPool loader = pool \<and> ObjectCount loader = DocumentCount pool
     \<and> 0 < ObjectCount loader \<and> ObjectCount loader \<le> 2 ^ 32 - 1
     \<and> (\<not> Inited (PairsPath loader) \<or> CheckExists ext (PairsPath loader))
     \<and> (\<not> Inited (GroupWeightsPath loader) \<or> CheckExists ext (GroupWeightsPath loader))
     \<and> (\<not> Inited (BaselinePath loader) \<or> CheckExists ext (BaselinePath loader))
     \<and> PairsPath loader = PairsFilePath (CommonArgs args)
     \<and> GroupWeightsPath loader = GroupWeightsFilePath (CommonArgs args)
     \<and> BaselinePath loader = BaselineFilePath (CommonArgs args)"
  using assms
  by (auto simp: NewTCBQuantizedDataLoader_def Let_def split: if_splits sum.splits)

text \<open>
  Claim C7. Let the pool be loaded. The constructor throws "Pool is empty" when the
  document count is zero, and the exception of line 49 when the document count is above
  \<open>2 ^ 32 - 1\<close>. When one of the three side paths (pairs, group weights, baseline) is
  set and \<^verbatim>\<open>CheckExists\<close> is false for it, the constructor throws one of the exceptions
  of its checks of lines 48-61. These checks are made in the constructor: no loader
  exists after they fail, so \<^verbatim>\<open>Do\<close> cannot run and the visitor is not called. When the
  constructor returns a loader, its \<^verbatim>\<open>ObjectCount\<close> is the document count cast to 32
  bits, which is the document count itself, positive and at most \<open>2 ^ 32 - 1\<close>, and
  every side path of the loader that is set exists.
\<close>

theorem NewTCBQuantizedDataLoader_validates_eagerly:
  assumes "LoadQuantizedPool ext (PoolPath args) = Inr pool"
  shows "(DocumentCount pool = 0 \<longrightarrow> NewTCBQuantizedDataLoader ext args = Inl PoolIsEmpty)
     \<and> (2 ^ 32 - 1 < DocumentCount pool \<longrightarrow>
          NewTCBQuantizedDataLoader ext args = Inl TooManyObjects)
     \<and> (\<forall>path. (path = PairsFilePath (CommonArgs args)
                  \<or> path = GroupWeightsFilePath (CommonArgs args)
                  \<or> path = BaselineFilePath (CommonArgs args))
                \<and> Inited path \<and> \<not> CheckExists ext path \<longrightarrow>
          (\<exists>e. NewTCBQuantizedDataLoader ext args = Inl e \<and> ValidationError e))
     \<and> (\<forall>loader. NewTCBQuantizedDataLoader ext args = Inr loader \<longrightarrow>
          QuantizedPool loader = pool
          \<and> ObjectCount loader = DocumentCount pool mod 2 ^ 32
          \<and> ObjectCount loader = DocumentCount pool
          \<and> 0 < ObjectCount loader \<and> ObjectCount loader \<le> 2 ^ 32 - 1
          \<and> (Inited (PairsPath loader) \<longrightarrow> CheckExists ext (PairsPath loader))
          \<and> (Inited (GroupWeightsPath loader) \<longrightarrow> CheckExists ext (GroupWeightsPath loader))
          \<and> (Inited (BaselinePath loader) \<longrightarrow> CheckExists ext (BaselinePath loader)))"
proof (intro conjI allI impI)
  fix loader
  assume l: "NewTCBQuantizedDataLoader ext args = Inr loader"
  note r = NewTCBQuantizedDataLoader_Inr [OF assms l]
  from r show "QuantizedPool loader = pool" by simp
  from r show "ObjectCount loader = DocumentCount pool" by simp
  from r show "ObjectCount loader = DocumentCount pool mod 2 ^ 32" by simp
  from r show "0 < ObjectCount loader" by simp
  from r show "ObjectCount loader \<le> 2 ^ 32 - 1" by simp
  { assume "Inited (PairsPath loader)"
    with r show "CheckExists ext (PairsPath loader)" by blast }
  { assume "Inited (GroupWeightsPath loader)"
    with r show "CheckExists ext (GroupWeightsPath loader)" by blast }
  { assume "Inited (BaselinePath loader)"
    with r show "CheckExists ext (BaselinePath loader)" by blast }
next
  fix path
  assume "(path = PairsFilePath (CommonArgs args)
            \<or> path = GroupWeightsFilePath (CommonArgs args)
            \<or> path = BaselineFilePath (CommonArgs args))
          \<and> Inited path \<and> \<not> CheckExists ext path"
  with assms show "\<exists>e. NewTCBQuantizedDataLoader ext args = Inl e \<and> ValidationError e"
    using NewTCBQuantizedDataLoader_missing_file by blast
qed (simp_all add: assms NewTCBQuantizedDataLoader_PoolIsEmpty
       NewTCBQuantizedDataLoader_TooManyObjects)

text \<open>A pool with no document, a pool with \<open>2 ^ 32\<close> documents, a baseline path that
  is set where no file exists, and the example pool, for which the constructor returns
  the example loader.\<close>

theorem NewTCBQuantizedDataLoader_validates_eagerly_witness:
  "NewTCBQuantizedDataLoader (ExampleCollaborators (ExamplePool\<lparr>DocumentCount := 0\<rparr>)) ExampleArgs
     = Inl PoolIsEmpty
   \<and> NewTCBQuantizedDataLoader (ExampleCollaborators (ExamplePool\<lparr>DocumentCount := 2 ^ 32\<rparr>))
       ExampleArgs
     = Inl TooManyObjects
   \<and> (\<exists>e. NewTCBQuantizedDataLoader (ExampleCollaborators ExamplePool)
             (ExampleArgs\<lparr>CommonArgs := (CommonArgs ExampleArgs)
                \<lparr>BaselineFilePath := \<lparr>Scheme = [], Path = ''baseline.tsv''\<rparr>\<rparr>\<rparr>) = Inl e
          \<and> ValidationError e)
   \<and> NewTCBQuantizedDataLoader (ExampleCollaborators ExamplePool)
             (ExampleArgs\<lparr>CommonArgs := (CommonArgs ExampleArgs)
                \<lparr>BaselineFilePath := \<lparr>Scheme = [], Path = ''baseline.tsv''\<rparr>\<rparr>\<rparr>)
     = Inl BaselineFilePathDoesNotExist
   \<and> NewTCBQuantizedDataLoader (ExampleCollaborators ExamplePool) ExampleArgs
     = Inr (ExampleLoader ExamplePool)
   \<and> ObjectCount (ExampleLoader ExamplePool) = DocumentCount ExamplePool"
proof -
  have l: "\<And>pool path. LoadQuantizedPool (ExampleCollaborators pool) path = Inr pool"
    by (simp add: ExampleCollaborators_def)
  have a: "NewTCBQuantizedDataLoader (ExampleCollaborators (ExamplePool\<lparr>DocumentCount := 0\<rparr>))
        ExampleArgs = Inl PoolIsEmpty"
    using NewTCBQuantizedDataLoader_validates_eagerly [OF l, of "ExamplePool\<lparr>DocumentCount := 0\<rparr>" ExampleArgs]
    by simp
  have b: "NewTCBQuantizedDataLoader (ExampleCollaborators (ExamplePool\<lparr>DocumentCount := 2 ^ 32\<rparr>))
       ExampleArgs = Inl TooManyObjects"
    using NewTCBQuantizedDataLoader_validates_eagerly [OF l, of "ExamplePool\<lparr>DocumentCount := 2 ^ 32\<rparr>" ExampleArgs]
    by simp
  let ?args = "ExampleArgs\<lparr>CommonArgs := (CommonArgs ExampleArgs)
                \<lparr>BaselineFilePath := \<lparr>Scheme = [], Path = ''baseline.tsv''\<rparr>\<rparr>\<rparr>"
  have "Inited (BaselineFilePath (CommonArgs ?args))
        \<and> \<not> CheckExists (ExampleCollaborators ExamplePool) (BaselineFilePath (CommonArgs ?args))"
    by (simp add: Inited_def ExampleCollaborators_def)
  with NewTCBQuantizedDataLoader_validates_eagerly [OF l, of ExamplePool ?args]
  have c: "\<exists>e. NewTCBQuantizedDataLoader (ExampleCollaborators ExamplePool) ?args = Inl e
          \<and> ValidationError e"
    by blast
  have d: "NewTCBQuantizedDataLoader (ExampleCollaborators ExamplePool) ?args
     = Inl BaselineFilePathDoesNotExist"
    by (simp add: NewTCBQuantizedDataLoader_def ExampleCollaborators_def ExamplePool_def
        ExampleArgs_def NoPath_def Inited_def)
  have u: "[0 ..< 2] = [0, Suc 0]"
    by (simp add: numeral_2_eq_2)
  have e: "NewTCBQuantizedDataLoader (ExampleCollaborators ExamplePool) ExampleArgs
     = Inr (ExampleLoader ExamplePool)"
    by (simp add: NewTCBQuantizedDataLoader_def ExampleCollaborators_def ExamplePool_def
        ExampleArgs_def NoPath_def Inited_def ProcessIgnoredFeaturesList_def ExampleLoader_def
        Let_def u)
  from NewTCBQuantizedDataLoader_validates_eagerly [OF l, of ExamplePool ExampleArgs] e
  have f: "ObjectCount (ExampleLoader ExamplePool) = DocumentCount ExamplePool"
    by blast
  from a b c d e f show ?thesis by blast
qed

section \<open>Streaming\<close>

subsection \<open>Where the calls on the visitor come from\<close>

lemma DoTurn_VisitorCall:
  "VisitorCall call \<in> set (fst (DoTurn loader flat base chunkRef ev)) \<Longrightarrow>
   DoChunk loader flat base chunkRef = Inr (Some call)"
  by (auto simp: DoTurn_def Let_def split: if_splits prod.splits option.splits sum.splits)

lemma DoLoop_VisitorCall:
  "VisitorCall call \<in> set (fst (DoLoop loader flat base chunkRefs ev)) \<Longrightarrow>
   \<exists>chunkRef \<in> set chunkRefs. DoChunk loader flat base chunkRef = Inr (Some call)"
proof (induction chunkRefs arbitrary: ev)
  case Nil
  then show ?case by simp
next
  case (Cons chunkRef chunkRefs)
  obtain events thrown ev' where t: "DoTurn loader flat base chunkRef ev = (events, thrown, ev')"
    by (cases "DoTurn loader flat base chunkRef ev") auto
  show ?case
  proof (cases "VisitorCall call \<in> set events")
    case True
    with t DoTurn_VisitorCall [of call loader flat base chunkRef ev] show ?thesis by simp
  next
    case False
    with Cons.prems t have "VisitorCall call \<in> set (fst (DoLoop loader flat base chunkRefs ev'))"
      by (auto split: option.splits prod.splits)
    with Cons.IH show ?thesis by auto
  qed
qed

lemma Do_VisitorCall:
  assumes "VisitorCall call \<in> set (fst (Do ext loader))"
  shows "call = Start (DataMetaInfo loader) (ObjectCount loader) (ObjectsOrder loader)
     \<or> call = Finish
     \<or> (\<exists>chunkRefs. GatherAndSortChunks (QuantizedPool loader) = Inr chunkRefs
          \<and> (\<exists>chunkRef \<in> set chunkRefs.
                DoChunk loader (GetColumnIndexToFlatIndexMap ext (QuantizedPool loader))
                  (GetColumnIndexToBaselineIndexMap ext (QuantizedPool loader)) chunkRef
                = Inr (Some call)))"
proof (cases "GatherAndSortChunks (QuantizedPool loader)")
  case (Inl e)
  with assms show ?thesis by (simp add: Do_def Let_def)
next
  case (Inr chunkRefs)
  let ?flat = "GetColumnIndexToFlatIndexMap ext (QuantizedPool loader)"
  let ?base = "GetColumnIndexToBaselineIndexMap ext (QuantizedPool loader)"
  obtain events thrown ev where
    l: "DoLoop loader ?flat ?base chunkRefs (NewTSequentialChunkEvictor (2 ^ 24)) = (events, thrown, ev)"
    by (cases "DoLoop loader ?flat ?base chunkRefs (NewTSequentialChunkEvictor (2 ^ 24))") auto
  from assms Inr l have "call = Start (DataMetaInfo loader) (ObjectCount loader) (ObjectsOrder loader)
     \<or> call = Finish \<or> VisitorCall call \<in> set events"
    by (auto simp: Do_def Let_def split: option.splits prod.splits)
  moreover have "VisitorCall call \<in> set events \<Longrightarrow>
      \<exists>chunkRef \<in> set chunkRefs. DoChunk loader ?flat ?base chunkRef = Inr (Some call)"
    using DoLoop_VisitorCall [of call loader ?flat ?base chunkRefs "NewTSequentialChunkEvictor (2 ^ 24)"] l
    by simp
  ultimately show ?thesis using Inr by auto
qed


subsection \<open>Ignored features\<close>

lemma AddChunk_AddFloatFeaturePart:
  "AddChunk chunk columnType flatFeatureIdx baselineIdx = Inr (AddFloatFeaturePart i off bits part)
   \<Longrightarrow> columnType = Num \<and> flatFeatureIdx = Some i"
  by (cases columnType) (auto simp: AddQuantizedFeatureChunk_def split: option.splits)

text \<open>What a dispatched chunk went through.\<close>

lemma DoChunk_dispatched:
  assumes "DoChunk loader flat base chunkRef = Inr (Some call)"
  shows "\<not> (HasStringColumns (QuantizedPool loader)
            \<and> IsStringSlot (QuantizedPool loader) (LocalIndex chunkRef))
     \<and> LocalIndex chunkRef < length (ColumnTypes (QuantizedPool loader))
     \<and> FeatureIsIgnored (IsFeatureIgnored loader) (flat (ColumnIndex chunkRef)) = Inr False
     \<and> AddChunk (Description chunkRef) (ColumnTypes (QuantizedPool loader) ! LocalIndex chunkRef)
          (flat (ColumnIndex chunkRef)) (base (ColumnIndex chunkRef)) = Inr call"
  using assms
  by (auto simp: DoChunk_def IsStringSlot_def Let_def split: if_splits sum.splits bool.splits)

lemma NewTCBQuantizedDataLoader_IsFeatureIgnored:
  assumes "NewTCBQuantizedDataLoader ext args = Inr loader"
  shows "IsFeatureIgnored loader =
     map (\<lambda>flatFeatureIdx. flatFeatureIdx \<in> set (IgnoredFeatures (CommonArgs args))
                             \<union> set (GetIgnoredFlatIndices ext (QuantizedPool loader)))
       [0 ..< FeatureCount (DataMetaInfo loader)]"
  using assms
  by (auto simp: NewTCBQuantizedDataLoader_def ProcessIgnoredFeaturesList_def Let_def
      split: if_splits sum.splits)

text \<open>
  Claim C8. Let the constructor return a loader, and let \<open>i\<close> be a feature index in the
  list of ignored features of the caller or in the list that the pool itself gives
  (\<^verbatim>\<open>GetIgnoredFlatIndices\<close>). Then \<^verbatim>\<open>Do\<close> never calls \<^verbatim>\<open>AddFloatFeaturePart\<close> for the
  feature \<open>i\<close>, whatever the pool holds and whether \<^verbatim>\<open>Do\<close> ends or throws; and a chunk whose
  column maps to \<open>i\<close> is never dispatched by the loop. The bit set comes from
  \<open>ProcessIgnoredFeaturesList\<close>, which is modelled from the specification.
\<close>

theorem ignored_features_are_never_delivered:
  assumes "NewTCBQuantizedDataLoader ext args = Inr loader"
    and "i \<in> set (IgnoredFeatures (CommonArgs args))
           \<union> set (GetIgnoredFlatIndices ext (QuantizedPool loader))"
  shows "VisitorCall (AddFloatFeaturePart i documentOffset bitsPerDocument part)
           \<notin> set (fst (Do ext loader))
     \<and> (flat (ColumnIndex chunkRef) = Some i \<longrightarrow>
          (\<forall>call. DoChunk loader flat base chunkRef \<noteq> Inr (Some call)))"
proof -
  have m: "i < length (IsFeatureIgnored loader) \<Longrightarrow> IsFeatureIgnored loader ! i"
    using assms(2) by (simp add: NewTCBQuantizedDataLoader_IsFeatureIgnored [OF assms(1)])
  have skipped: "\<And>flat base chunkRef call. flat (ColumnIndex chunkRef) = Some i \<Longrightarrow>
      DoChunk loader flat base chunkRef \<noteq> Inr (Some call)"
  proof
    fix flat base chunkRef call
    assume f: "flat (ColumnIndex chunkRef) = Some i"
      and d: "DoChunk loader flat base chunkRef = Inr (Some call)"
    from DoChunk_dispatched [OF d] f
    have "FeatureIsIgnored (IsFeatureIgnored loader) (Some i) = Inr False" by simp
    then have "i < length (IsFeatureIgnored loader) \<and> \<not> IsFeatureIgnored loader ! i"
      by (simp add: FeatureIsIgnored_def split: if_splits)
    with m show False by simp
  qed
  have "VisitorCall (AddFloatFeaturePart i documentOffset bitsPerDocument part)
           \<notin> set (fst (Do ext loader))"
  proof
    assume "VisitorCall (AddFloatFeaturePart i documentOffset bitsPerDocument part)
           \<in> set (fst (Do ext loader))"
    from Do_VisitorCall [OF this] obtain chunkRef where
      d: "DoChunk loader (GetColumnIndexToFlatIndexMap ext (QuantizedPool loader))
            (GetColumnIndexToBaselineIndexMap ext (QuantizedPool loader)) chunkRef
          = Inr (Some (AddFloatFeaturePart i documentOffset bitsPerDocument part))"
      by auto
    from DoChunk_dispatched [OF d] AddChunk_AddFloatFeaturePart
    have "GetColumnIndexToFlatIndexMap ext (QuantizedPool loader) (ColumnIndex chunkRef) = Some i"
      by blast
    with skipped d show False by blast
  qed
  with skipped show ?thesis by blast
qed


text \<open>The definitions to unfold when \<^verbatim>\<open>Do\<close> is evaluated on the example inputs.\<close>

lemmas example_defs = ExamplePool_def ExampleStringPool_def ExampleChunk_def
  ExampleCollaborators_def ExampleLoader_def ExampleArgs_def NoPath_def NoLocalIndex_def

lemmas Do_defs = Do_def DoTurn_def DoChunk_def FeatureIsIgnored_def Push_def MaybeEvict_def
  NewTSequentialChunkEvictor_def AddQuantizedFeatureChunk_def quants_def Let_def
  GatherAndSortChunks_def fakeIndices_def ChunkRefsOfSlot_def ChunkData_def ChunkSize_def

text \<open>The caller ignores feature 1, the feature of column 2: the chunk at 4120 is not
  delivered, and it is delivered when nothing is ignored.\<close>

theorem ignored_features_are_never_delivered_witness:
  "NewTCBQuantizedDataLoader (ExampleCollaborators ExamplePool)
       (ExampleArgs\<lparr>CommonArgs := (CommonArgs ExampleArgs)\<lparr>IgnoredFeatures := [1]\<rparr>\<rparr>)
     = Inr ((ExampleLoader ExamplePool)\<lparr>IsFeatureIgnored := [False, True]\<rparr>)
   \<and> VisitorCall (AddFloatFeaturePart 1 0 8 (QuantsView 4120 3))
       \<notin> set (fst (Do (ExampleCollaborators ExamplePool)
                       ((ExampleLoader ExamplePool)\<lparr>IsFeatureIgnored := [False, True]\<rparr>)))
   \<and> VisitorCalls (fst (Do (ExampleCollaborators ExamplePool)
                       ((ExampleLoader ExamplePool)\<lparr>IsFeatureIgnored := [False, True]\<rparr>)))
     = [Start \<lparr>FeatureCount = 2, ClassNames = []\<rparr> 3 Undefined,
        AddFloatFeaturePart 0 0 8 (QuantsView 4096 2),
        AddTargetPart 0 (QuantsView 4100 12),
        AddFloatFeaturePart 0 2 8 (QuantsView 4200 1),
        Finish]
   \<and> VisitorCalls (fst (Do (ExampleCollaborators ExamplePool) (ExampleLoader ExamplePool)))
     = [Start \<lparr>FeatureCount = 2, ClassNames = []\<rparr> 3 Undefined,
        AddFloatFeaturePart 0 0 8 (QuantsView 4096 2),
        AddTargetPart 0 (QuantsView 4100 12),
        AddFloatFeaturePart 1 0 8 (QuantsView 4120 3),
        AddFloatFeaturePart 0 2 8 (QuantsView 4200 1),
        Finish]"
proof -
  let ?args = "ExampleArgs\<lparr>CommonArgs := (CommonArgs ExampleArgs)\<lparr>IgnoredFeatures := [1]\<rparr>\<rparr>"
  let ?loader = "(ExampleLoader ExamplePool)\<lparr>IsFeatureIgnored := [False, True]\<rparr>"
  have u: "[0 ..< 2] = [0, Suc 0]"
    by (simp add: numeral_2_eq_2)
  have c: "NewTCBQuantizedDataLoader (ExampleCollaborators ExamplePool) ?args = Inr ?loader"
    by (simp add: NewTCBQuantizedDataLoader_def ExampleCollaborators_def ExamplePool_def
        ExampleArgs_def NoPath_def Inited_def ProcessIgnoredFeaturesList_def ExampleLoader_def
        Let_def u)
  have i: "1 \<in> set (IgnoredFeatures (CommonArgs ?args))
            \<union> set (GetIgnoredFlatIndices (ExampleCollaborators ExamplePool) (QuantizedPool ?loader))"
    by (simp add: ExampleArgs_def)
  from ignored_features_are_never_delivered [OF c i, of 0 8 "QuantsView 4120 3"]
  have n: "VisitorCall (AddFloatFeaturePart 1 0 8 (QuantsView 4120 3))
       \<notin> set (fst (Do (ExampleCollaborators ExamplePool) ?loader))"
    by blast
  have v: "VisitorCalls (fst (Do (ExampleCollaborators ExamplePool) ?loader))
     = [Start \<lparr>FeatureCount = 2, ClassNames = []\<rparr> 3 Undefined,
        AddFloatFeaturePart 0 0 8 (QuantsView 4096 2),
        AddTargetPart 0 (QuantsView 4100 12),
        AddFloatFeaturePart 0 2 8 (QuantsView 4200 1),
        Finish]"
    by (simp add: example_defs Do_defs)
  have w: "VisitorCalls (fst (Do (ExampleCollaborators ExamplePool) (ExampleLoader ExamplePool)))
     = [Start \<lparr>FeatureCount = 2, ClassNames = []\<rparr> 3 Undefined,
        AddFloatFeaturePart 0 0 8 (QuantsView 4096 2),
        AddTargetPart 0 (QuantsView 4100 12),
        AddFloatFeaturePart 1 0 8 (QuantsView 4120 3),
        AddFloatFeaturePart 0 2 8 (QuantsView 4200 1),
        Finish]"
    by (simp add: example_defs Do_defs)
  from c n v w show ?thesis by blast
qed


subsection \<open>String slots\<close>

text \<open>
  Claim C9, amended. In a pool whose flag \<^verbatim>\<open>HasStringColumns\<close> is set (the condition that
  line 278 tests before it compares the local index), a chunk reference whose local index
  is one of the three string slot indices is skipped by the loop: the turn reaches
  neither \<^verbatim>\<open>AddChunk\<close> nor the visitor, in any state of the evictor. And every call other
  than \<^verbatim>\<open>Start\<close> and \<^verbatim>\<open>Finish\<close> that \<^verbatim>\<open>Do\<close> makes on the visitor for such a pool comes
  from a gathered chunk reference whose local index is not a string slot.
\<close>

theorem string_slots_are_skipped:
  assumes "HasStringColumns (QuantizedPool loader)"
  shows "(IsStringSlot (QuantizedPool loader) (LocalIndex chunkRef) \<longrightarrow>
            DoChunk loader flat base chunkRef = Inr None
            \<and> VisitorCalls (fst (DoTurn loader flat base chunkRef ev)) = []
            \<and> (\<forall>call. VisitorCall call \<notin> set (fst (DoTurn loader flat base chunkRef ev))))
     \<and> (\<forall>call. VisitorCall call \<in> set (fst (Do ext loader)) \<longrightarrow>
            call = Start (DataMetaInfo loader) (ObjectCount loader) (ObjectsOrder loader)
            \<or> call = Finish
            \<or> (\<exists>chunkRefs. GatherAndSortChunks (QuantizedPool loader) = Inr chunkRefs
                 \<and> (\<exists>chunkRef \<in> set chunkRefs.
                       \<not> IsStringSlot (QuantizedPool loader) (LocalIndex chunkRef)
                       \<and> DoChunk loader (GetColumnIndexToFlatIndexMap ext (QuantizedPool loader))
                           (GetColumnIndexToBaselineIndexMap ext (QuantizedPool loader)) chunkRef
                         = Inr (Some call))))"
proof (intro conjI impI allI)
  assume s: "IsStringSlot (QuantizedPool loader) (LocalIndex chunkRef)"
  with assms show d: "DoChunk loader flat base chunkRef = Inr None"
    by (simp add: DoChunk_def IsStringSlot_def)
  show n: "\<And>call. VisitorCall call \<notin> set (fst (DoTurn loader flat base chunkRef ev))"
    using DoTurn_VisitorCall [of _ loader flat base chunkRef ev] d by auto
  from d show "VisitorCalls (fst (DoTurn loader flat base chunkRef ev)) = []"
    by (simp add: DoTurn_def Let_def MaybeEvict_def split: prod.splits option.splits)
next
  fix call
  assume "VisitorCall call \<in> set (fst (Do ext loader))"
  from Do_VisitorCall [OF this]
  consider "call = Start (DataMetaInfo loader) (ObjectCount loader) (ObjectsOrder loader)"
    | "call = Finish"
    | chunkRefs chunkRef where "GatherAndSortChunks (QuantizedPool loader) = Inr chunkRefs"
        "chunkRef \<in> set chunkRefs"
        "DoChunk loader (GetColumnIndexToFlatIndexMap ext (QuantizedPool loader))
           (GetColumnIndexToBaselineIndexMap ext (QuantizedPool loader)) chunkRef
         = Inr (Some call)"
    by blast
  then show "call = Start (DataMetaInfo loader) (ObjectCount loader) (ObjectsOrder loader)
            \<or> call = Finish
            \<or> (\<exists>chunkRefs. GatherAndSortChunks (QuantizedPool loader) = Inr chunkRefs
                 \<and> (\<exists>chunkRef \<in> set chunkRefs.
                       \<not> IsStringSlot (QuantizedPool loader) (LocalIndex chunkRef)
                       \<and> DoChunk loader (GetColumnIndexToFlatIndexMap ext (QuantizedPool loader))
                           (GetColumnIndexToBaselineIndexMap ext (QuantizedPool loader)) chunkRef
                         = Inr (Some call)))"
  proof cases
    case 3
    from DoChunk_dispatched [OF 3(3)] assms
    have "\<not> IsStringSlot (QuantizedPool loader) (LocalIndex chunkRef)" by simp
    with 3 show ?thesis by blast
  qed simp_all
qed

text \<open>The pool with the string slot 3: its chunk at 4300 is gathered, pushed to the
  evictor and skipped; the visitor gets the four chunks of the columns.\<close>

theorem string_slots_are_skipped_witness:
  "HasStringColumns (QuantizedPool (ExampleLoader ExampleStringPool))
   \<and> IsStringSlot (QuantizedPool (ExampleLoader ExampleStringPool)) 3
   \<and> DoChunk (ExampleLoader ExampleStringPool) [0 \<mapsto> 0, 2 \<mapsto> 1] Map.empty
        \<lparr>Description = ExampleChunk 0 4300 30, ColumnIndex = 0, LocalIndex = 3\<rparr> = Inr None
   \<and> VisitorCalls (fst (DoTurn (ExampleLoader ExampleStringPool) [0 \<mapsto> 0, 2 \<mapsto> 1] Map.empty
        \<lparr>Description = ExampleChunk 0 4300 30, ColumnIndex = 0, LocalIndex = 3\<rparr>
        \<lparr>MinSizeInBytesToEvict = 2 ^ 24, Evicted = False, Data = 4096, Size = 105\<rparr>)) = []
   \<and> VisitorCalls (fst (Do (ExampleCollaborators ExampleStringPool) (ExampleLoader ExampleStringPool)))
     = [Start \<lparr>FeatureCount = 2, ClassNames = []\<rparr> 3 Undefined,
        AddFloatFeaturePart 0 0 8 (QuantsView 4096 2),
        AddTargetPart 0 (QuantsView 4100 12),
        AddFloatFeaturePart 1 0 8 (QuantsView 4120 3),
        AddFloatFeaturePart 0 2 8 (QuantsView 4200 1),
        Finish]
   \<and> snd (Do (ExampleCollaborators ExampleStringPool) (ExampleLoader ExampleStringPool)) = None"
proof -
  let ?ref = "\<lparr>Description = ExampleChunk 0 4300 30, ColumnIndex = 0, LocalIndex = 3\<rparr>"
  have h: "HasStringColumns (QuantizedPool (ExampleLoader ExampleStringPool))"
    by (simp add: ExampleLoader_def ExampleStringPool_def)
  have s: "IsStringSlot (QuantizedPool (ExampleLoader ExampleStringPool)) (LocalIndex ?ref)"
    by (simp add: IsStringSlot_def ExampleLoader_def ExampleStringPool_def)
  note t = string_slots_are_skipped [OF h, of ?ref "[0 \<mapsto> 0, 2 \<mapsto> 1]" Map.empty
      "\<lparr>MinSizeInBytesToEvict = 2 ^ 24, Evicted = False, Data = 4096, Size = 105\<rparr>"
      "ExampleCollaborators ExampleStringPool"]
  from t s have a: "DoChunk (ExampleLoader ExampleStringPool) [0 \<mapsto> 0, 2 \<mapsto> 1] Map.empty ?ref
      = Inr None"
    by blast
  from t s have b: "VisitorCalls (fst (DoTurn (ExampleLoader ExampleStringPool)
        [0 \<mapsto> 0, 2 \<mapsto> 1] Map.empty ?ref
        \<lparr>MinSizeInBytesToEvict = 2 ^ 24, Evicted = False, Data = 4096, Size = 105\<rparr>)) = []"
    by blast
  have c: "VisitorCalls (fst (Do (ExampleCollaborators ExampleStringPool)
                               (ExampleLoader ExampleStringPool)))
     = [Start \<lparr>FeatureCount = 2, ClassNames = []\<rparr> 3 Undefined,
        AddFloatFeaturePart 0 0 8 (QuantsView 4096 2),
        AddTargetPart 0 (QuantsView 4100 12),
        AddFloatFeaturePart 1 0 8 (QuantsView 4120 3),
        AddFloatFeaturePart 0 2 8 (QuantsView 4200 1),
        Finish]"
    by (simp add: example_defs Do_defs)
  have d: "snd (Do (ExampleCollaborators ExampleStringPool) (ExampleLoader ExampleStringPool)) = None"
    by (simp add: example_defs Do_defs)
  from h s a b c d show ?thesis by simp
qed


text \<open>
  Claim C9, as the specification states it: every gathered chunk of a string slot is
  skipped, in every pool in which such a slot is configured. The gatherer takes a string
  slot when its local index is not \<^verbatim>\<open>static_cast<ui32>(-1)\<close> (line 158); the loop skips it
  only when \<^verbatim>\<open>HasStringColumns\<close> is set (line 278). In the pool below the document ids
  are in slot 3, the flag is not set, and the table of column types gives \<^verbatim>\<open>Label\<close> for
  slot 3: the chunk at 4300 is gathered with column index 0, is not skipped, and is
  handed to the visitor by \<^verbatim>\<open>AddTargetPart\<close>.
\<close>

theorem string_slot_without_flag_is_dispatched_counterexample:
  "StringDocIdLocalIndex
       (ExampleStringPool\<lparr>ColumnTypes := [Num, Label, Num, Label], HasStringColumns := False\<rparr>) = 3
   \<and> StringDocIdLocalIndex
       (ExampleStringPool\<lparr>ColumnTypes := [Num, Label, Num, Label], HasStringColumns := False\<rparr>)
     \<noteq> NoLocalIndex
   \<and> IsStringSlot
       (ExampleStringPool\<lparr>ColumnTypes := [Num, Label, Num, Label], HasStringColumns := False\<rparr>) 3
   \<and> GatherAndSortChunks
       (ExampleStringPool\<lparr>ColumnTypes := [Num, Label, Num, Label], HasStringColumns := False\<rparr>)
     = Inr [\<lparr>Description = ExampleChunk 0 4096 2, ColumnIndex = 0, LocalIndex = 0\<rparr>,
            \<lparr>Description = ExampleChunk 0 4100 12, ColumnIndex = 1, LocalIndex = 1\<rparr>,
            \<lparr>Description = ExampleChunk 0 4120 3, ColumnIndex = 2, LocalIndex = 2\<rparr>,
            \<lparr>Description = ExampleChunk 2 4200 1, ColumnIndex = 0, LocalIndex = 0\<rparr>,
            \<lparr>Description = ExampleChunk 0 4300 30, ColumnIndex = 0, LocalIndex = 3\<rparr>]
   \<and> DoChunk
       (ExampleLoader
          (ExampleStringPool\<lparr>ColumnTypes := [Num, Label, Num, Label], HasStringColumns := False\<rparr>))
       [0 \<mapsto> 0, 2 \<mapsto> 1] Map.empty
       \<lparr>Description = ExampleChunk 0 4300 30, ColumnIndex = 0, LocalIndex = 3\<rparr>
     = Inr (Some (AddTargetPart 0 (QuantsView 4300 30)))
   \<and> VisitorCalls (fst (Do
       (ExampleCollaborators
          (ExampleStringPool\<lparr>ColumnTypes := [Num, Label, Num, Label], HasStringColumns := False\<rparr>))
       (ExampleLoader
          (ExampleStringPool\<lparr>ColumnTypes := [Num, Label, Num, Label], HasStringColumns := False\<rparr>))))
     = [Start \<lparr>FeatureCount = 2, ClassNames = []\<rparr> 3 Undefined,
        AddFloatFeaturePart 0 0 8 (QuantsView 4096 2),
        AddTargetPart 0 (QuantsView 4100 12),
        AddFloatFeaturePart 1 0 8 (QuantsView 4120 3),
        AddFloatFeaturePart 0 2 8 (QuantsView 4200 1),
        AddTargetPart 0 (QuantsView 4300 30),
        Finish]
   \<and> snd (Do
       (ExampleCollaborators
          (ExampleStringPool\<lparr>ColumnTypes := [Num, Label, Num, Label], HasStringColumns := False\<rparr>))
       (ExampleLoader
          (ExampleStringPool\<lparr>ColumnTypes := [Num, Label, Num, Label], HasStringColumns := False\<rparr>)))
     = None"
  by (simp add: example_defs Do_defs IsStringSlot_def)

subsection \<open>Where the exceptions come from\<close>

lemma Push_error:
  "fst (Push chunk ev) = Some e \<Longrightarrow>
   e = EvictorAddressOrder (Data ev) (Size ev) (ChunkData chunk) (ChunkSize chunk)"
  by (simp add: Push_def Let_def split: if_splits)

lemma DoTurn_error:
  "fst (snd (DoTurn loader flat base chunkRef ev)) = Some e \<Longrightarrow>
   fst (Push chunkRef ev) = Some e \<or> DoChunk loader flat base chunkRef = Inl e"
  by (auto simp: DoTurn_def Let_def split: if_splits prod.splits option.splits sum.splits)

lemma DoLoop_error:
  "fst (snd (DoLoop loader flat base chunkRefs ev)) = Some e \<Longrightarrow>
   \<exists>chunkRef \<in> set chunkRefs.
     (\<exists>ev'. fst (Push chunkRef ev') = Some e) \<or> DoChunk loader flat base chunkRef = Inl e"
proof (induction chunkRefs arbitrary: ev)
  case Nil
  then show ?case by simp
next
  case (Cons chunkRef chunkRefs)
  obtain events thrown ev' where t: "DoTurn loader flat base chunkRef ev = (events, thrown, ev')"
    by (cases "DoTurn loader flat base chunkRef ev") auto
  show ?case
  proof (cases thrown)
    case None
    with Cons.prems t have "fst (snd (DoLoop loader flat base chunkRefs ev')) = Some e"
      by (auto split: prod.splits)
    with Cons.IH show ?thesis by auto
  next
    case (Some e')
    with Cons.prems t have "e' = e" by simp
    with Some t DoTurn_error [of loader flat base chunkRef ev e] show ?thesis by auto
  qed
qed

lemma GatherColumnChunks_error:
  "GatherColumnChunks pool entries = Inl e \<Longrightarrow> e = UndefinedBehaviour IndexOutOfRange"
  by (induction entries) (auto simp: ChunkRefsOfSlot_def split: if_splits sum.splits)

lemma GatherFakeChunks_error:
  "GatherFakeChunks pool indices = Inl e \<Longrightarrow> e = UndefinedBehaviour IndexOutOfRange"
  by (induction indices) (auto simp: ChunkRefsOfSlot_def split: if_splits sum.splits)

lemma GatherAndSortChunks_error:
  "GatherAndSortChunks pool = Inl e \<Longrightarrow> e = UndefinedBehaviour IndexOutOfRange"
  by (auto simp: GatherAndSortChunks_def split: sum.splits
      dest: GatherColumnChunks_error GatherFakeChunks_error)

lemma Do_error:
  assumes "snd (Do ext loader) = Some e"
  shows "e = UndefinedBehaviour IndexOutOfRange
     \<or> (\<exists>chunkRefs. GatherAndSortChunks (QuantizedPool loader) = Inr chunkRefs
          \<and> (\<exists>chunkRef \<in> set chunkRefs.
                (\<exists>ev. fst (Push chunkRef ev) = Some e)
                \<or> DoChunk loader (GetColumnIndexToFlatIndexMap ext (QuantizedPool loader))
                     (GetColumnIndexToBaselineIndexMap ext (QuantizedPool loader)) chunkRef
                   = Inl e))"
proof (cases "GatherAndSortChunks (QuantizedPool loader)")
  case (Inl e')
  with assms have "e' = e" by (simp add: Do_def Let_def)
  with Inl GatherAndSortChunks_error show ?thesis by blast
next
  case (Inr chunkRefs)
  let ?flat = "GetColumnIndexToFlatIndexMap ext (QuantizedPool loader)"
  let ?base = "GetColumnIndexToBaselineIndexMap ext (QuantizedPool loader)"
  obtain events thrown ev where
    l: "DoLoop loader ?flat ?base chunkRefs (NewTSequentialChunkEvictor (2 ^ 24)) = (events, thrown, ev)"
    by (cases "DoLoop loader ?flat ?base chunkRefs (NewTSequentialChunkEvictor (2 ^ 24))") auto
  from assms Inr l have "thrown = Some e"
    by (auto simp: Do_def Let_def split: option.splits prod.splits)
  with l DoLoop_error [of loader ?flat ?base chunkRefs "NewTSequentialChunkEvictor (2 ^ 24)" e]
  have "\<exists>chunkRef \<in> set chunkRefs.
     (\<exists>ev'. fst (Push chunkRef ev') = Some e) \<or> DoChunk loader ?flat ?base chunkRef = Inl e"
    by simp
  with Inr show ?thesis by blast
qed

subsection \<open>The pointers that AddChunk reads\<close>

lemma AddChunk_NullPointerDereference:
  "AddChunk chunk columnType flatFeatureIdx baselineIdx
     = Inl (UndefinedBehaviour NullPointerDereference) \<longleftrightarrow>
   (columnType = Num \<and> flatFeatureIdx = None) \<or> (columnType = Baseline \<and> baselineIdx = None)"
  by (cases columnType) (auto split: option.splits)

lemma DoChunk_NullPointerDereference:
  assumes "DoChunk loader flat base chunkRef = Inl (UndefinedBehaviour NullPointerDereference)"
  shows "LocalIndex chunkRef < length (ColumnTypes (QuantizedPool loader))
     \<and> ((ColumnTypes (QuantizedPool loader) ! LocalIndex chunkRef = Num
           \<and> flat (ColumnIndex chunkRef) = None)
          \<or> (ColumnTypes (QuantizedPool loader) ! LocalIndex chunkRef = Baseline
           \<and> base (ColumnIndex chunkRef) = None))"
proof -
  from assms have l: "LocalIndex chunkRef < length (ColumnTypes (QuantizedPool loader))"
    by (auto simp: DoChunk_def Let_def split: if_splits)
  from assms have "AddChunk (Description chunkRef)
        (ColumnTypes (QuantizedPool loader) ! LocalIndex chunkRef)
        (flat (ColumnIndex chunkRef)) (base (ColumnIndex chunkRef))
      = Inl (UndefinedBehaviour NullPointerDereference)"
    by (auto simp: DoChunk_def FeatureIsIgnored_def Let_def
        split: if_splits sum.splits bool.splits option.splits)
  with l show ?thesis by (simp add: AddChunk_NullPointerDereference)
qed

text \<open>
  Claim C10. \<^verbatim>\<open>AddChunk\<close> reads \<^verbatim>\<open>*flatFeatureIdx\<close> for \<^verbatim>\<open>Num\<close> and \<^verbatim>\<open>*baselineIdx\<close> for
  \<^verbatim>\<open>Baseline\<close>, with no test for null: a null pointer there is a null dereference. For
  every other type neither pointer is read (the result is the same with both null), and
  \<^verbatim>\<open>Label\<close>, \<^verbatim>\<open>Weight\<close>, \<^verbatim>\<open>GroupWeight\<close>, \<^verbatim>\<open>GroupId\<close> and \<^verbatim>\<open>SubgroupId\<close> chunks are
  delivered with both null. When the pointer of the type is not null there is no null
  dereference; and when every gathered chunk of a \<^verbatim>\<open>Num\<close> column has a flat feature index
  and every gathered chunk of a \<^verbatim>\<open>Baseline\<close> column has a baseline index, \<^verbatim>\<open>Do\<close> never ends
  in a null dereference.
\<close>

theorem AddChunk_reads_only_the_index_of_its_type:
  "AddChunk chunk Num None baselineIdx = Inl (UndefinedBehaviour NullPointerDereference)
   \<and> AddChunk chunk Baseline flatFeatureIdx None = Inl (UndefinedBehaviour NullPointerDereference)
   \<and> AddChunk chunk Num (Some i) baselineIdx = Inr (AddQuantizedFeatureChunk chunk i)
   \<and> AddChunk chunk Baseline flatFeatureIdx (Some i)
       = Inr (AddBaselinePart (DocumentOffset chunk) i
               (FloatsAssignedFromDoubles (QuantsData (Chunk chunk)) (QuantsSize (Chunk chunk))))
   \<and> (columnType \<noteq> Num \<and> columnType \<noteq> Baseline \<longrightarrow>
        AddChunk chunk columnType flatFeatureIdx baselineIdx = AddChunk chunk columnType None None)
   \<and> (columnType \<in> {Label, Weight, GroupWeight, GroupId, SubgroupId} \<longrightarrow>
        (\<exists>call. AddChunk chunk columnType None None = Inr call))
   \<and> ((columnType = Num \<longrightarrow> flatFeatureIdx \<noteq> None)
        \<and> (columnType = Baseline \<longrightarrow> baselineIdx \<noteq> None) \<longrightarrow>
        AddChunk chunk columnType flatFeatureIdx baselineIdx
          \<noteq> Inl (UndefinedBehaviour NullPointerDereference))
   \<and> ((\<forall>chunkRefs chunkRef. GatherAndSortChunks (QuantizedPool loader) = Inr chunkRefs
          \<and> chunkRef \<in> set chunkRefs
          \<and> LocalIndex chunkRef < length (ColumnTypes (QuantizedPool loader)) \<longrightarrow>
          (ColumnTypes (QuantizedPool loader) ! LocalIndex chunkRef = Num \<longrightarrow>
             GetColumnIndexToFlatIndexMap ext (QuantizedPool loader) (ColumnIndex chunkRef) \<noteq> None)
          \<and> (ColumnTypes (QuantizedPool loader) ! LocalIndex chunkRef = Baseline \<longrightarrow>
             GetColumnIndexToBaselineIndexMap ext (QuantizedPool loader) (ColumnIndex chunkRef)
               \<noteq> None)) \<longrightarrow>
        snd (Do ext loader) \<noteq> Some (UndefinedBehaviour NullPointerDereference))"
proof (intro conjI impI)
  show "AddChunk chunk Num None baselineIdx = Inl (UndefinedBehaviour NullPointerDereference)"
    by simp
  show "AddChunk chunk Baseline flatFeatureIdx None
      = Inl (UndefinedBehaviour NullPointerDereference)"
    by simp
  show "AddChunk chunk Num (Some i) baselineIdx = Inr (AddQuantizedFeatureChunk chunk i)"
    by simp
  show "AddChunk chunk Baseline flatFeatureIdx (Some i)
       = Inr (AddBaselinePart (DocumentOffset chunk) i
               (FloatsAssignedFromDoubles (QuantsData (Chunk chunk)) (QuantsSize (Chunk chunk))))"
    by simp
next
  assume "columnType \<noteq> Num \<and> columnType \<noteq> Baseline"
  then show "AddChunk chunk columnType flatFeatureIdx baselineIdx
      = AddChunk chunk columnType None None"
    by (cases columnType) simp_all
next
  assume "columnType \<in> {Label, Weight, GroupWeight, GroupId, SubgroupId}"
  then show "\<exists>call. AddChunk chunk columnType None None = Inr call"
    by auto
next
  assume "(columnType = Num \<longrightarrow> flatFeatureIdx \<noteq> None)
        \<and> (columnType = Baseline \<longrightarrow> baselineIdx \<noteq> None)"
  then show "AddChunk chunk columnType flatFeatureIdx baselineIdx
          \<noteq> Inl (UndefinedBehaviour NullPointerDereference)"
    by (auto simp: AddChunk_NullPointerDereference)
next
  let ?pool = "QuantizedPool loader"
  let ?flat = "GetColumnIndexToFlatIndexMap ext ?pool"
  let ?base = "GetColumnIndexToBaselineIndexMap ext ?pool"
  assume pre: "\<forall>chunkRefs chunkRef. GatherAndSortChunks ?pool = Inr chunkRefs
          \<and> chunkRef \<in> set chunkRefs
          \<and> LocalIndex chunkRef < length (ColumnTypes ?pool) \<longrightarrow>
          (ColumnTypes ?pool ! LocalIndex chunkRef = Num \<longrightarrow> ?flat (ColumnIndex chunkRef) \<noteq> None)
          \<and> (ColumnTypes ?pool ! LocalIndex chunkRef = Baseline \<longrightarrow>
             ?base (ColumnIndex chunkRef) \<noteq> None)"
  show "snd (Do ext loader) \<noteq> Some (UndefinedBehaviour NullPointerDereference)"
  proof
    assume "snd (Do ext loader) = Some (UndefinedBehaviour NullPointerDereference)"
    from Do_error [OF this] obtain chunkRefs chunkRef where
      g: "GatherAndSortChunks ?pool = Inr chunkRefs" and m: "chunkRef \<in> set chunkRefs"
      and c: "(\<exists>ev. fst (Push chunkRef ev) = Some (UndefinedBehaviour NullPointerDereference))
              \<or> DoChunk loader ?flat ?base chunkRef
                 = Inl (UndefinedBehaviour NullPointerDereference)"
      by auto
    from c have "DoChunk loader ?flat ?base chunkRef
                 = Inl (UndefinedBehaviour NullPointerDereference)"
      by (auto dest: Push_error)
    from DoChunk_NullPointerDereference [OF this] pre g m show False
      by blast
  qed
qed


text \<open>The example pool, whose two feature columns have flat indices; and the same run
  with an empty map of flat indices, which ends in the null dereference.\<close>

theorem AddChunk_reads_only_the_index_of_its_type_witness:
  "AddChunk (ExampleChunk 0 4100 12) Label None None = Inr (AddTargetPart 0 (QuantsView 4100 12))
   \<and> AddChunk (ExampleChunk 0 4100 12) Label (Some 7) (Some 9)
     = AddChunk (ExampleChunk 0 4100 12) Label None None
   \<and> AddChunk (ExampleChunk 0 4096 2) Num (Some 0) None
     = Inr (AddFloatFeaturePart 0 0 8 (QuantsView 4096 2))
   \<and> AddChunk (ExampleChunk 0 4096 2) Num (Some 0) None
     \<noteq> Inl (UndefinedBehaviour NullPointerDereference)
   \<and> snd (Do (ExampleCollaborators ExamplePool) (ExampleLoader ExamplePool))
     \<noteq> Some (UndefinedBehaviour NullPointerDereference)
   \<and> snd (Do (ExampleCollaborators ExamplePool) (ExampleLoader ExamplePool)) = None
   \<and> snd (Do ((ExampleCollaborators ExamplePool)\<lparr>GetColumnIndexToFlatIndexMap := (\<lambda>pool. Map.empty)\<rparr>)
             (ExampleLoader ExamplePool))
     = Some (UndefinedBehaviour NullPointerDereference)"
proof -
  let ?ext = "ExampleCollaborators ExamplePool"
  let ?loader = "ExampleLoader ExamplePool"
  note t = AddChunk_reads_only_the_index_of_its_type
  have a: "AddChunk (ExampleChunk 0 4100 12) Label None None
      = Inr (AddTargetPart 0 (QuantsView 4100 12))"
    by (simp add: ExampleChunk_def quants_def)
  have b: "AddChunk (ExampleChunk 0 4100 12) Label (Some 7) (Some 9)
     = AddChunk (ExampleChunk 0 4100 12) Label None None"
    using t [of "ExampleChunk 0 4100 12" "Some 9" "Some 7" 0 Label ?loader ?ext] by simp
  have c: "AddChunk (ExampleChunk 0 4096 2) Num (Some 0) None
     = Inr (AddFloatFeaturePart 0 0 8 (QuantsView 4096 2))"
    by (simp add: ExampleChunk_def quants_def AddQuantizedFeatureChunk_def)
  have d: "AddChunk (ExampleChunk 0 4096 2) Num (Some 0) None
     \<noteq> Inl (UndefinedBehaviour NullPointerDereference)"
    using t [of "ExampleChunk 0 4096 2" None "Some 0" 0 Num ?loader ?ext] by simp
  have g: "GatherAndSortChunks (QuantizedPool ?loader) =
       Inr [\<lparr>Description = ExampleChunk 0 4096 2, ColumnIndex = 0, LocalIndex = 0\<rparr>,
            \<lparr>Description = ExampleChunk 0 4100 12, ColumnIndex = 1, LocalIndex = 1\<rparr>,
            \<lparr>Description = ExampleChunk 0 4120 3, ColumnIndex = 2, LocalIndex = 2\<rparr>,
            \<lparr>Description = ExampleChunk 2 4200 1, ColumnIndex = 0, LocalIndex = 0\<rparr>]"
    by (simp add: example_defs GatherAndSortChunks_def fakeIndices_def ChunkRefsOfSlot_def
        ChunkData_def)
  have pre: "\<forall>chunkRefs chunkRef. GatherAndSortChunks (QuantizedPool ?loader) = Inr chunkRefs
          \<and> chunkRef \<in> set chunkRefs
          \<and> LocalIndex chunkRef < length (ColumnTypes (QuantizedPool ?loader)) \<longrightarrow>
          (ColumnTypes (QuantizedPool ?loader) ! LocalIndex chunkRef = Num \<longrightarrow>
             GetColumnIndexToFlatIndexMap ?ext (QuantizedPool ?loader) (ColumnIndex chunkRef) \<noteq> None)
          \<and> (ColumnTypes (QuantizedPool ?loader) ! LocalIndex chunkRef = Baseline \<longrightarrow>
             GetColumnIndexToBaselineIndexMap ?ext (QuantizedPool ?loader) (ColumnIndex chunkRef)
               \<noteq> None)"
    unfolding g by (auto simp: ExampleLoader_def ExamplePool_def ExampleCollaborators_def)
  from t [of "ExampleChunk 0 4096 2" None "Some 0" 0 Num ?loader ?ext] pre
  have e: "snd (Do ?ext ?loader) \<noteq> Some (UndefinedBehaviour NullPointerDereference)"
    by blast
  have f: "snd (Do ?ext ?loader) = None"
    by (simp add: example_defs Do_defs)
  have h: "snd (Do (?ext\<lparr>GetColumnIndexToFlatIndexMap := (\<lambda>pool. Map.empty)\<rparr>) ?loader)
     = Some (UndefinedBehaviour NullPointerDereference)"
    by (simp add: example_defs Do_defs)
  from a b c d e f h show ?thesis by blast
qed

subsection \<open>The assertion of line 293\<close>

text \<open>
  Claim C1, amended. For a chunk reference that is not skipped as a string column or as
  a \<^verbatim>\<open>SampleId\<close> column, line 293 asserts that the column type is one of eight types:
  \<^verbatim>\<open>Num\<close>, \<^verbatim>\<open>Baseline\<close>, \<^verbatim>\<open>Label\<close>, \<^verbatim>\<open>Categ\<close>, \<^verbatim>\<open>Weight\<close>, \<^verbatim>\<open>GroupWeight\<close>, \<^verbatim>\<open>GroupId\<close>,
  \<^verbatim>\<open>SubgroupId\<close>. Any other type (\<^verbatim>\<open>Auxiliary\<close>, \<^verbatim>\<open>Text\<close>, \<^verbatim>\<open>Timestamp\<close>, \<^verbatim>\<open>Sparse\<close>,
  \<^verbatim>\<open>Prediction\<close>) throws there, with the column type and the column index. A \<^verbatim>\<open>Categ\<close>
  chunk passes the assertion: it is skipped when its feature is ignored, and otherwise
  \<^verbatim>\<open>AddChunk\<close> throws "Unexpected column type". A chunk that is dispatched to the visitor
  has one of the seven types \<^verbatim>\<open>Num\<close>, \<^verbatim>\<open>Label\<close>, \<^verbatim>\<open>Baseline\<close>, \<^verbatim>\<open>Weight\<close>, \<^verbatim>\<open>GroupWeight\<close>,
  \<^verbatim>\<open>GroupId\<close>, \<^verbatim>\<open>SubgroupId\<close>.
\<close>

theorem DoChunk_asserts_eight_types:
  assumes "\<not> (HasStringColumns (QuantizedPool loader)
               \<and> IsStringSlot (QuantizedPool loader) (LocalIndex chunkRef))"
    and "LocalIndex chunkRef < length (ColumnTypes (QuantizedPool loader))"
    and "columnType = ColumnTypes (QuantizedPool loader) ! LocalIndex chunkRef"
    and "columnType \<noteq> SampleId"
  shows "(columnType \<in> {Auxiliary, Text, Timestamp, Sparse, Prediction} \<longrightarrow>
            DoChunk loader flat base chunkRef
              = Inl (ExpectedDispatchableColumn columnType (ColumnIndex chunkRef)))
     \<and> (columnType \<in> {Num, Baseline, Label, Categ, Weight, GroupWeight, GroupId, SubgroupId} \<longrightarrow>
            (\<forall>t c. DoChunk loader flat base chunkRef \<noteq> Inl (ExpectedDispatchableColumn t c)))
     \<and> (columnType = Categ \<longrightarrow>
            DoChunk loader flat base chunkRef =
              (case FeatureIsIgnored (IsFeatureIgnored loader) (flat (ColumnIndex chunkRef)) of
                 Inl e \<Rightarrow> Inl e
               | Inr True \<Rightarrow> Inr None
               | Inr False \<Rightarrow> Inl (UnexpectedColumnType Categ)))
     \<and> (\<forall>call. DoChunk loader flat base chunkRef = Inr (Some call) \<longrightarrow>
            columnType \<in> {Num, Label, Baseline, Weight, GroupWeight, GroupId, SubgroupId})"
proof -
  from assms(1) have s: "\<not> (HasStringColumns (QuantizedPool loader) \<and>
            (LocalIndex chunkRef = StringDocIdLocalIndex (QuantizedPool loader) \<or>
             LocalIndex chunkRef = StringGroupIdLocalIndex (QuantizedPool loader) \<or>
             LocalIndex chunkRef = StringSubgroupIdLocalIndex (QuantizedPool loader)))"
    by (simp add: IsStringSlot_def)
  show ?thesis
    using s assms(2-4)
    by (cases columnType)
      (auto simp: DoChunk_def FeatureIsIgnored_def Let_def
        split: sum.splits bool.splits option.splits if_splits)
qed


text \<open>
  Claim C1, as the specification states it: a column type outside the seven dispatchable
  types throws at the assertion of the loop, not later in the dispatcher. In the example
  pool with column 2 of type \<^verbatim>\<open>Categ\<close>, the chunk of that column passes the assertion
  and the exception is the one of \<^verbatim>\<open>AddChunk\<close> (line 252); when the feature of the column
  is ignored, no exception is thrown at all.
\<close>

theorem Categ_passes_the_assertion_counterexample:
  "ColumnTypes (ExamplePool\<lparr>ColumnTypes := [Num, Label, Categ]\<rparr>) ! 2 = Categ
   \<and> DoChunk (ExampleLoader (ExamplePool\<lparr>ColumnTypes := [Num, Label, Categ]\<rparr>))
        [0 \<mapsto> 0, 2 \<mapsto> 1] Map.empty
        \<lparr>Description = ExampleChunk 0 4120 3, ColumnIndex = 2, LocalIndex = 2\<rparr>
     = Inl (UnexpectedColumnType Categ)
   \<and> DoChunk (ExampleLoader (ExamplePool\<lparr>ColumnTypes := [Num, Label, Categ]\<rparr>))
        [0 \<mapsto> 0, 2 \<mapsto> 1] Map.empty
        \<lparr>Description = ExampleChunk 0 4120 3, ColumnIndex = 2, LocalIndex = 2\<rparr>
     \<noteq> Inl (ExpectedDispatchableColumn Categ 2)
   \<and> snd (Do (ExampleCollaborators (ExamplePool\<lparr>ColumnTypes := [Num, Label, Categ]\<rparr>))
             (ExampleLoader (ExamplePool\<lparr>ColumnTypes := [Num, Label, Categ]\<rparr>)))
     = Some (UnexpectedColumnType Categ)
   \<and> snd (Do (ExampleCollaborators (ExamplePool\<lparr>ColumnTypes := [Num, Label, Categ]\<rparr>))
             ((ExampleLoader (ExamplePool\<lparr>ColumnTypes := [Num, Label, Categ]\<rparr>))
                \<lparr>IsFeatureIgnored := [False, True]\<rparr>))
     = None"
  by (simp add: example_defs Do_defs)

text \<open>A \<^verbatim>\<open>Text\<close> column, a \<^verbatim>\<open>Categ\<close> column and a \<^verbatim>\<open>Label\<close> column.\<close>

theorem DoChunk_asserts_eight_types_witness:
  "DoChunk (ExampleLoader (ExamplePool\<lparr>ColumnTypes := [Num, Text, Num]\<rparr>))
        [0 \<mapsto> 0, 2 \<mapsto> 1] Map.empty
        \<lparr>Description = ExampleChunk 0 4100 12, ColumnIndex = 1, LocalIndex = 1\<rparr>
     = Inl (ExpectedDispatchableColumn Text 1)
   \<and> snd (Do (ExampleCollaborators (ExamplePool\<lparr>ColumnTypes := [Num, Text, Num]\<rparr>))
             (ExampleLoader (ExamplePool\<lparr>ColumnTypes := [Num, Text, Num]\<rparr>)))
     = Some (ExpectedDispatchableColumn Text 1)
   \<and> DoChunk (ExampleLoader (ExamplePool\<lparr>ColumnTypes := [Num, Label, Categ]\<rparr>))
        [0 \<mapsto> 0, 2 \<mapsto> 1] Map.empty
        \<lparr>Description = ExampleChunk 0 4120 3, ColumnIndex = 2, LocalIndex = 2\<rparr>
     = Inl (UnexpectedColumnType Categ)
   \<and> DoChunk (ExampleLoader ExamplePool) [0 \<mapsto> 0, 2 \<mapsto> 1] Map.empty
        \<lparr>Description = ExampleChunk 0 4100 12, ColumnIndex = 1, LocalIndex = 1\<rparr>
     = Inr (Some (AddTargetPart 0 (QuantsView 4100 12)))"
proof -
  let ?text = "ExampleLoader (ExamplePool\<lparr>ColumnTypes := [Num, Text, Num]\<rparr>)"
  let ?categ = "ExampleLoader (ExamplePool\<lparr>ColumnTypes := [Num, Label, Categ]\<rparr>)"
  let ?flat = "[0 \<mapsto> 0, 2 \<mapsto> (1::nat)]"
  let ?r1 = "\<lparr>Description = ExampleChunk 0 4100 12, ColumnIndex = 1, LocalIndex = 1\<rparr>"
  let ?r2 = "\<lparr>Description = ExampleChunk 0 4120 3, ColumnIndex = 2, LocalIndex = 2\<rparr>"
  have a: "DoChunk ?text ?flat Map.empty ?r1 = Inl (ExpectedDispatchableColumn Text 1)"
    using DoChunk_asserts_eight_types [of ?text ?r1 Text ?flat Map.empty]
    by (simp add: ExampleLoader_def ExamplePool_def)
  have b: "snd (Do (ExampleCollaborators (ExamplePool\<lparr>ColumnTypes := [Num, Text, Num]\<rparr>)) ?text)
     = Some (ExpectedDispatchableColumn Text 1)"
    by (simp add: example_defs Do_defs)
  have c: "DoChunk ?categ ?flat Map.empty ?r2 = Inl (UnexpectedColumnType Categ)"
    using DoChunk_asserts_eight_types [of ?categ ?r2 Categ ?flat Map.empty]
    by (simp add: ExampleLoader_def ExamplePool_def FeatureIsIgnored_def)
  have d: "DoChunk (ExampleLoader ExamplePool) ?flat Map.empty ?r1
     = Inr (Some (AddTargetPart 0 (QuantsView 4100 12)))"
    by (simp add: example_defs Do_defs)
  from a b c d show ?thesis by blast
qed

subsection \<open>A pool that is in memory\<close>

lemma Advisories_append:
  "Advisories (xs @ ys) = Advisories xs @ Advisories ys"
  by (induction xs rule: Advisories.induct) simp_all

lemma DoTurn_in_memory:
  assumes "ColumnsDump (QuantizedPool loader) \<noteq> []" and "MaybeEvict False ev = ([], ev)"
  shows "DoTurn loader flat base chunkRef ev =
     ((case DoChunk loader flat base chunkRef of Inr (Some call) \<Rightarrow> [VisitorCall call] | _ \<Rightarrow> [])
        @ [EvictorMaybeEvict False],
      (case DoChunk loader flat base chunkRef of Inl e \<Rightarrow> Some e | Inr _ \<Rightarrow> None),
      ev)"
  using assms by (simp add: DoTurn_def Let_def)

lemma DoLoop_in_memory:
  assumes "ColumnsDump (QuantizedPool loader) \<noteq> []" and "MaybeEvict False ev = ([], ev)"
  shows "snd (snd (DoLoop loader flat base chunkRefs ev)) = ev
     \<and> Advisories (fst (DoLoop loader flat base chunkRefs ev)) = []
     \<and> (\<forall>c. EvictorPush c \<notin> set (fst (DoLoop loader flat base chunkRefs ev)))
     \<and> count_list (fst (DoLoop loader flat base chunkRefs ev)) (EvictorMaybeEvict True) = 0
     \<and> (fst (snd (DoLoop loader flat base chunkRefs ev)) = None
          \<longrightarrow> count_list (fst (DoLoop loader flat base chunkRefs ev)) (EvictorMaybeEvict False)
                = length chunkRefs)"
proof (induction chunkRefs)
  case Nil
  then show ?case by simp
next
  case (Cons chunkRef chunkRefs)
  note t = DoTurn_in_memory [OF assms, of flat base chunkRef]
  obtain later thrown ev' where
    l: "DoLoop loader flat base chunkRefs ev = (later, thrown, ev')"
    by (cases "DoLoop loader flat base chunkRefs ev") auto
  with Cons.IH have ih: "ev' = ev" "Advisories later = []"
    "\<forall>c. EvictorPush c \<notin> set later" "count_list later (EvictorMaybeEvict True) = 0"
    "thrown = None \<longrightarrow> count_list later (EvictorMaybeEvict False) = length chunkRefs"
    by simp_all
  show ?case
  proof (cases "DoChunk loader flat base chunkRef")
    case (Inl e)
    then show ?thesis by (simp add: t)
  next
    case (Inr r)
    then show ?thesis
      using ih by (cases r) (auto simp: t l Advisories_append)
  qed
qed

lemma count_list_append:
  "count_list (xs @ ys) x = count_list xs x + count_list ys x"
  by (induction xs) simp_all

text \<open>
  Claim C5, amended. When \<^verbatim>\<open>ColumnsDump\<close> is not empty, \<^verbatim>\<open>Do\<close> never calls \<^verbatim>\<open>Push\<close>.
  \<^verbatim>\<open>MaybeEvict(false)\<close> still runs at the end of every turn of the loop, and issues no
  advisory, since the visited length stays 0. When the loop ends without an exception
  the forced \<^verbatim>\<open>MaybeEvict(true)\<close> of line 310 runs once and issues one advisory, for the
  empty range at the null address.
\<close>

theorem in_memory_pool_is_not_pushed_but_flushed:
  assumes "ColumnsDump (QuantizedPool loader) \<noteq> []"
  shows "(\<forall>chunkRef. EvictorPush chunkRef \<notin> set (fst (Do ext loader)))
     \<and> Advisories (fst (Do ext loader))
         = (if snd (Do ext loader) = None then [MadviseEvict 0 0] else [])
     \<and> (snd (Do ext loader) = None \<longrightarrow>
          count_list (fst (Do ext loader)) (EvictorMaybeEvict True) = 1
          \<and> (\<forall>chunkRefs. GatherAndSortChunks (QuantizedPool loader) = Inr chunkRefs \<longrightarrow>
                count_list (fst (Do ext loader)) (EvictorMaybeEvict False) = length chunkRefs))"
proof (cases "GatherAndSortChunks (QuantizedPool loader)")
  case (Inl e)
  then show ?thesis by (simp add: Do_def Let_def)
next
  case (Inr chunkRefs)
  let ?flat = "GetColumnIndexToFlatIndexMap ext (QuantizedPool loader)"
  let ?base = "GetColumnIndexToBaselineIndexMap ext (QuantizedPool loader)"
  obtain events thrown ev where
    l: "DoLoop loader ?flat ?base chunkRefs (NewTSequentialChunkEvictor (2 ^ 24)) = (events, thrown, ev)"
    by (cases "DoLoop loader ?flat ?base chunkRefs (NewTSequentialChunkEvictor (2 ^ 24))") auto
  have "MaybeEvict False (NewTSequentialChunkEvictor (2 ^ 24))
      = ([], NewTSequentialChunkEvictor (2 ^ 24))"
    by (simp add: MaybeEvict_def NewTSequentialChunkEvictor_def)
  from DoLoop_in_memory [OF assms this, of ?flat ?base chunkRefs] l
  have m: "ev = NewTSequentialChunkEvictor (2 ^ 24)" "Advisories events = []"
    "\<forall>c. EvictorPush c \<notin> set events" "count_list events (EvictorMaybeEvict True) = 0"
    "thrown = None \<longrightarrow> count_list events (EvictorMaybeEvict False) = length chunkRefs"
    by simp_all
  have f: "MaybeEvict True (NewTSequentialChunkEvictor (2 ^ 24))
      = ([MadviseEvict 0 0], (NewTSequentialChunkEvictor (2 ^ 24))\<lparr>Evicted := True\<rparr>)"
    by (simp add: MaybeEvict_def NewTSequentialChunkEvictor_def)
  show ?thesis
  proof (cases thrown)
    case None
    with Inr l m f show ?thesis
      by (simp add: Do_def Let_def Advisories_append count_list_append)
  next
    case (Some e)
    with Inr l m show ?thesis
      by (simp add: Do_def Let_def)
  qed
qed

text \<open>
  Claim C5, as the specification states it: for a pool in memory no \<^verbatim>\<open>maybe_evict(false)\<close>
  and no forced \<^verbatim>\<open>maybe_evict(true)\<close> occurs. The example pool with a \<^verbatim>\<open>ColumnsDump\<close> of
  one blob: \<^verbatim>\<open>MaybeEvict(false)\<close> is called after each of the four chunks, then
  \<^verbatim>\<open>MaybeEvict(true)\<close>, which issues \<^verbatim>\<open>MadviseEvict(nullptr, 0)\<close>.
\<close>

theorem in_memory_pool_still_evicts_counterexample:
  "ColumnsDump (QuantizedPool (ExampleLoader (ExamplePool\<lparr>ColumnsDump := [[0]]\<rparr>))) \<noteq> []
   \<and> Do (ExampleCollaborators (ExamplePool\<lparr>ColumnsDump := [[0]]\<rparr>))
        (ExampleLoader (ExamplePool\<lparr>ColumnsDump := [[0]]\<rparr>))
     = ([VisitorCall (Start \<lparr>FeatureCount = 2, ClassNames = []\<rparr> 3 Undefined),
         VisitorCall (AddFloatFeaturePart 0 0 8 (QuantsView 4096 2)),
         EvictorMaybeEvict False,
         VisitorCall (AddTargetPart 0 (QuantsView 4100 12)),
         EvictorMaybeEvict False,
         VisitorCall (AddFloatFeaturePart 1 0 8 (QuantsView 4120 3)),
         EvictorMaybeEvict False,
         VisitorCall (AddFloatFeaturePart 0 2 8 (QuantsView 4200 1)),
         EvictorMaybeEvict False,
         EvictorMaybeEvict True,
         Advisory (MadviseEvict 0 0),
         SetGroupWeights NoPath 3,
         SetPairs NoPath 3,
         SetBaseline NoPath 3 [],
         VisitorCall Finish],
        None)
   \<and> EvictorMaybeEvict False
       \<in> set (fst (Do (ExampleCollaborators (ExamplePool\<lparr>ColumnsDump := [[0]]\<rparr>))
                      (ExampleLoader (ExamplePool\<lparr>ColumnsDump := [[0]]\<rparr>))))
   \<and> EvictorMaybeEvict True
       \<in> set (fst (Do (ExampleCollaborators (ExamplePool\<lparr>ColumnsDump := [[0]]\<rparr>))
                      (ExampleLoader (ExamplePool\<lparr>ColumnsDump := [[0]]\<rparr>))))
   \<and> Advisory (MadviseEvict 0 0)
       \<in> set (fst (Do (ExampleCollaborators (ExamplePool\<lparr>ColumnsDump := [[0]]\<rparr>))
                      (ExampleLoader (ExamplePool\<lparr>ColumnsDump := [[0]]\<rparr>))))"
  by (simp add: example_defs Do_defs)

text \<open>The same run, through the theorem.\<close>

theorem in_memory_pool_is_not_pushed_but_flushed_witness:
  "ColumnsDump (QuantizedPool (ExampleLoader (ExamplePool\<lparr>ColumnsDump := [[0]]\<rparr>))) \<noteq> []
   \<and> snd (Do (ExampleCollaborators (ExamplePool\<lparr>ColumnsDump := [[0]]\<rparr>))
             (ExampleLoader (ExamplePool\<lparr>ColumnsDump := [[0]]\<rparr>))) = None
   \<and> Advisories (fst (Do (ExampleCollaborators (ExamplePool\<lparr>ColumnsDump := [[0]]\<rparr>))
                         (ExampleLoader (ExamplePool\<lparr>ColumnsDump := [[0]]\<rparr>))))
     = [MadviseEvict 0 0]
   \<and> count_list (fst (Do (ExampleCollaborators (ExamplePool\<lparr>ColumnsDump := [[0]]\<rparr>))
                         (ExampleLoader (ExamplePool\<lparr>ColumnsDump := [[0]]\<rparr>))))
        (EvictorMaybeEvict True) = 1
   \<and> count_list (fst (Do (ExampleCollaborators (ExamplePool\<lparr>ColumnsDump := [[0]]\<rparr>))
                         (ExampleLoader (ExamplePool\<lparr>ColumnsDump := [[0]]\<rparr>))))
        (EvictorMaybeEvict False) = 4"
proof -
  let ?pool = "ExamplePool\<lparr>ColumnsDump := [[0]]\<rparr>"
  have h: "ColumnsDump (QuantizedPool (ExampleLoader ?pool)) \<noteq> []"
    by (simp add: ExampleLoader_def)
  have n: "snd (Do (ExampleCollaborators ?pool) (ExampleLoader ?pool)) = None"
    by (simp add: example_defs Do_defs)
  have g: "\<exists>chunkRefs. GatherAndSortChunks (QuantizedPool (ExampleLoader ?pool)) = Inr chunkRefs
      \<and> length chunkRefs = 4"
    by (simp add: example_defs GatherAndSortChunks_def fakeIndices_def ChunkRefsOfSlot_def
        ChunkData_def)
  note t = in_memory_pool_is_not_pushed_but_flushed [OF h, of "ExampleCollaborators ?pool"]
  from t n have a: "Advisories (fst (Do (ExampleCollaborators ?pool) (ExampleLoader ?pool)))
     = [MadviseEvict 0 0]"
    by simp
  from t n have b: "count_list (fst (Do (ExampleCollaborators ?pool) (ExampleLoader ?pool)))
        (EvictorMaybeEvict True) = 1"
    by blast
  from t n g have c: "count_list (fst (Do (ExampleCollaborators ?pool) (ExampleLoader ?pool)))
        (EvictorMaybeEvict False) = 4"
    by auto
  from h n a b c show ?thesis by blast
qed


end
